theory Spec2Isabelle
  imports Complex_Main "HOL-Library.Multiset" "HOL-Library.Log_Nat"
begin

section \<open>Equipment detail and booking page (src/pages/EquipmentDetails.tsx)\<close>

subsection \<open>JavaScript numbers and dates\<close>

text \<open>
  A JavaScript number is a binary64 value: NaN, an infinity, or a finite value, held here
  as the rational it stands for. The two zeros are one value: they differ only under
  division, and the page divides by a non-zero constant. Every comparison with NaN is false
  and NaN is falsy, as in the language.
\<close>

datatype number = NaN | Fin rat | PosInfinity | NegInfinity

text \<open>
  Rounding to binary64: the nearest value with a significand of 53 bits, a tie going to
  the even significand. \<open>expo x\<close> is the exponent of the power of two at or below
  \<open>\<bar>x\<bar>\<close>; below the smallest normal exponent the spacing of the values stays that of
  the subnormal numbers. A result beyond the largest finite value is an infinity.
\<close>

definition round_even :: "rat \<Rightarrow> int" where
  "round_even y =
     (let f = \<lfloor>y\<rfloor>; r = y - of_int f
      in if r < 1 / 2 then f else if 1 / 2 < r then f + 1 else if even f then f else f + 1)"

definition expo :: "rat \<Rightarrow> int" where
  "expo x =
     (case quotient_of \<bar>x\<bar> of
        (p, q) \<Rightarrow>
          (let k = bitlen p - bitlen q in if 2 powi k \<le> \<bar>x\<bar> then k else k - 1))"

definition binary64 :: "rat \<Rightarrow> rat" where
  "binary64 x =
     (if x = 0 then 0
      else (let u = 2 powi (max (expo x) (- 1022) - 52)
            in of_int (round_even (x / u)) * u))"

definition overflow :: "rat \<Rightarrow> number" where
  "overflow x =
     (if 2 ^ 1024 \<le> x then PosInfinity
      else if x \<le> - (2 ^ 1024) then NegInfinity
      else Fin x)"

definition num_sign :: "number \<Rightarrow> int" where
  "num_sign x =
     (case x of
        NaN \<Rightarrow> 0
      | Fin a \<Rightarrow> (if a < 0 then - 1 else if a = 0 then 0 else 1)
      | PosInfinity \<Rightarrow> 1
      | NegInfinity \<Rightarrow> - 1)"

text \<open>The operators \<open>*\<close> and \<open>+\<close>: the exact result, rounded.\<close>

definition num_mult :: "number \<Rightarrow> number \<Rightarrow> number" where
  "num_mult x y =
     (case (x, y) of
        (Fin a, Fin b) \<Rightarrow> overflow (binary64 (a * b))
      | _ \<Rightarrow>
          (if x = NaN \<or> y = NaN \<or> num_sign x * num_sign y = 0 then NaN
           else if 0 < num_sign x * num_sign y then PosInfinity
           else NegInfinity))"

definition num_add :: "number \<Rightarrow> number \<Rightarrow> number" where
  "num_add x y =
     (case (x, y) of
        (Fin a, Fin b) \<Rightarrow> overflow (binary64 (a + b))
      | _ \<Rightarrow>
          (if x = NaN \<or> y = NaN then NaN
           else if x = PosInfinity \<and> y = NegInfinity \<or> x = NegInfinity \<and> y = PosInfinity
           then NaN
           else if x = PosInfinity \<or> y = PosInfinity then PosInfinity
           else NegInfinity))"

definition num_neg :: "number \<Rightarrow> number" where
  "num_neg x =
     (case x of
        NaN \<Rightarrow> NaN
      | Fin a \<Rightarrow> Fin (- a)
      | PosInfinity \<Rightarrow> NegInfinity
      | NegInfinity \<Rightarrow> PosInfinity)"

text \<open>
  The page subtracts and divides only in calculateDuration, on the time values of two
  dates. For the dates a date input delivers (whole days) the difference and its quotient
  by the milliseconds of a day are binary64 values themselves, and nothing is rounded;
  the difference and the quotient of two finite values are taken exactly.
\<close>

definition num_sub :: "number \<Rightarrow> number \<Rightarrow> number" where
  "num_sub x y =
     (case (x, y) of
        (Fin a, Fin b) \<Rightarrow> Fin (a - b)
      | _ \<Rightarrow> num_add x (num_neg y))"

definition num_div :: "number \<Rightarrow> number \<Rightarrow> number" where
  "num_div x y =
     (case (x, y) of
        (Fin a, Fin b) \<Rightarrow>
          (if b = 0 then
             (if a = 0 then NaN else if 0 < a then PosInfinity else NegInfinity)
           else Fin (a / b))
      | (Fin a, _) \<Rightarrow> (if y = NaN then NaN else Fin 0)
      | (_, Fin b) \<Rightarrow>
          (if x = NaN then NaN
           else if (0 \<le> b) = (x = PosInfinity) then PosInfinity
           else NegInfinity)
      | _ \<Rightarrow> NaN)"

definition Math_abs :: "number \<Rightarrow> number" where
  "Math_abs x = (case x of Fin a \<Rightarrow> Fin \<bar>a\<bar> | NaN \<Rightarrow> NaN | _ \<Rightarrow> PosInfinity)"

definition Math_ceil :: "number \<Rightarrow> number" where
  "Math_ceil x = (case x of Fin a \<Rightarrow> Fin (of_int \<lceil>a\<rceil>) | _ \<Rightarrow> x)"

text \<open>Math.round: the nearest integer, a tie going to the greater one.\<close>

definition Math_round :: "number \<Rightarrow> number" where
  "Math_round x = (case x of Fin a \<Rightarrow> Fin (of_int \<lfloor>a + 1 / 2\<rfloor>) | _ \<Rightarrow> x)"

definition num_lt :: "number \<Rightarrow> number \<Rightarrow> bool" where
  "num_lt x y =
     (case (x, y) of
        (Fin a, Fin b) \<Rightarrow> a < b
      | _ \<Rightarrow> x \<noteq> NaN \<and> y \<noteq> NaN \<and> x \<noteq> y \<and> (x = NegInfinity \<or> y = PosInfinity))"

definition num_gt :: "number \<Rightarrow> number \<Rightarrow> bool" where
  "num_gt x y =
     (case (x, y) of
        (Fin a, Fin b) \<Rightarrow> a > b
      | _ \<Rightarrow> x \<noteq> NaN \<and> y \<noteq> NaN \<and> x \<noteq> y \<and> (x = PosInfinity \<or> y = NegInfinity))"

definition num_ge :: "number \<Rightarrow> number \<Rightarrow> bool" where
  "num_ge x y =
     (case (x, y) of
        (Fin a, Fin b) \<Rightarrow> a \<ge> b
      | _ \<Rightarrow> x \<noteq> NaN \<and> y \<noteq> NaN \<and> (x = PosInfinity \<or> y = NegInfinity))"

definition truthy :: "number \<Rightarrow> bool" where
  "truthy x = (case x of Fin a \<Rightarrow> a \<noteq> 0 | NaN \<Rightarrow> False | _ \<Rightarrow> True)"

text \<open>
  A Date object holds a time value in milliseconds, or none when the string given to the
  constructor does not parse (Invalid Date, whose getTime is NaN). The constructor
  belongs to the language runtime and is a parameter \<open>newDate\<close> of the functions below.
  Comparing two dates compares their time values as numbers.
\<close>

type_synonym Date = "int option"

definition getTime :: "Date \<Rightarrow> number" where
  "getTime d = (case d of Some t \<Rightarrow> Fin (of_int t) | None \<Rightarrow> NaN)"

definition date_lt :: "Date \<Rightarrow> Date \<Rightarrow> bool" where
  "date_lt a b = num_lt (getTime a) (getTime b)"

definition date_ge :: "Date \<Rightarrow> Date \<Rightarrow> bool" where
  "date_ge a b = num_ge (getTime a) (getTime b)"

subsection \<open>Data model\<close>

record Image =
  id_image :: string
  image_url :: string
  is_main :: bool

record UserProfile =
  id_profile :: string
  company_name :: string
  full_name :: string
  email :: string

record Equipment =
  id_equipment :: string
  title :: string
  description :: string
  type_equipment :: string
  location :: string
  rate :: number
  status :: string
  user_id :: string
  user_profiles :: "UserProfile option"
  images :: "Image list"
  features :: "string list"

text \<open>The row the store returns: the image set and the feature list may be missing.\<close>

record EquipmentRow =
  row_id :: string
  row_title :: string
  row_description :: string
  row_type :: string
  row_location :: string
  row_rate :: number
  row_status :: string
  row_user_id :: string
  row_user_profiles :: "UserProfile option"
  equipment_images :: "Image list option"
  row_features :: "string list option"

record BookingData =
  startDate :: string
  endDate :: string
  notesText :: string

record User =
  id_user :: string

text \<open>The record sent to the bookings table.\<close>

record Booking =
  equipment_id :: string
  booking_user_id :: string
  start_date :: string
  end_date :: string
  days :: number
  rate_per_day :: number
  subtotal :: number
  service_fee :: number
  total_amount :: number
  booking_status :: string
  booking_notes :: "string option"

text \<open>The component's state (its useState cells).\<close>

record State =
  equipment :: "Equipment option"
  loading :: bool
  showBookingModal :: bool
  bookingData :: BookingData
  duration :: number
  totalAmount :: number
  submitting :: bool
  currentImageIndex :: nat

definition initialState :: State where
  "initialState =
     \<lparr>equipment = None, loading = True, showBookingModal = False,
      bookingData = \<lparr>startDate = '''', endDate = '''', notesText = ''''\<rparr>,
      duration = Fin 0, totalAmount = Fin 0, submitting = False, currentImageIndex = 0\<rparr>"

text \<open>What a handler does besides updating the state, in the order it does it.\<close>

datatype effect =
    Alert string
  | ConsoleError string string
  | Navigate string
  | StoreInsert Booking

subsection \<open>Pricing\<close>

text \<open>The effect that recomputes the total when the duration or the rate changes.\<close>

definition recomputeTotals :: "State \<Rightarrow> State" where
  "recomputeTotals s =
     (case equipment s of
        Some e \<Rightarrow>
          (if num_gt (duration s) (Fin 0) \<and> truthy (rate e) then
             (let subtotal = num_mult (duration s) (rate e);
                  serviceFee = Math_round (num_mult subtotal (Fin (binary64 (5 / 100))))
              in s\<lparr>totalAmount := num_add subtotal serviceFee\<rparr>)
           else s\<lparr>totalAmount := Fin 0\<rparr>)
      | None \<Rightarrow> s\<lparr>totalAmount := Fin 0\<rparr>)"

subsection \<open>Dates and duration\<close>

definition calculateDuration :: "(string \<Rightarrow> Date) \<Rightarrow> string \<Rightarrow> string \<Rightarrow> number" where
  "calculateDuration newDate start end =
     (let startDate = newDate start;
          endDate = newDate end;
          diffTime = Math_abs (num_sub (getTime endDate) (getTime startDate))
      in Math_ceil (num_div diffTime (Fin (1000 * 60 * 60 * 24))))"

datatype dateField = StartDateField | EndDateField

definition handleDateChange :: "(string \<Rightarrow> Date) \<Rightarrow> dateField \<Rightarrow> string \<Rightarrow> State \<Rightarrow> State" where
  "handleDateChange newDate field v s =
     (let newBookingData =
            (case field of
               StartDateField \<Rightarrow> (bookingData s)\<lparr>startDate := v\<rparr>
             | EndDateField \<Rightarrow> (bookingData s)\<lparr>endDate := v\<rparr>)
      in if startDate newBookingData \<noteq> '''' \<and> endDate newBookingData \<noteq> '''' then
           s\<lparr>bookingData := newBookingData,
             duration := calculateDuration newDate (startDate newBookingData) (endDate newBookingData)\<rparr>
         else s\<lparr>bookingData := newBookingData, duration := Fin 0\<rparr>)"

text \<open>The notes field's onChange.\<close>

definition handleNotesChange :: "string \<Rightarrow> State \<Rightarrow> State" where
  "handleNotesChange v s = s\<lparr>bookingData := (bookingData s)\<lparr>notesText := v\<rparr>\<rparr>"

text \<open>The duration held in the state follows the two date fields.\<close>

definition durationSynced :: "(string \<Rightarrow> Date) \<Rightarrow> State \<Rightarrow> bool" where
  "durationSynced newDate s =
     (duration s =
        (if startDate (bookingData s) \<noteq> '''' \<and> endDate (bookingData s) \<noteq> ''''
         then calculateDuration newDate (startDate (bookingData s)) (endDate (bookingData s))
         else Fin 0))"

subsection \<open>Submitting a booking\<close>

text \<open>
  The handler runs up to the store call, where it awaits, and resumes with the store's
  answer. \<open>today\<close> is the time value of the current day after setHours(0, 0, 0, 0).
\<close>

datatype submitStep = Returned "effect list" | Awaiting State Booking

definition handleBookingSubmit_begin ::
  "User option \<Rightarrow> (string \<Rightarrow> Date) \<Rightarrow> int \<Rightarrow> State \<Rightarrow> submitStep" where
  "handleBookingSubmit_begin user newDate today s =
     (case (user, equipment s) of
        (Some u, Some e) \<Rightarrow>
          (if id_user u = user_id e then
             Returned [Alert ''You cannot book your own equipment'']
           else
             (let startD = newDate (startDate (bookingData s));
                  endD = newDate (endDate (bookingData s))
              in if date_lt startD (Some today) then
                   Returned [Alert ''Start date cannot be in the past'']
                 else if date_ge startD endD then
                   Returned [Alert ''End date must be after start date'']
                 else if num_lt (duration s) (Fin 1) then
                   Returned [Alert ''Minimum booking duration is 1 day'']
                 else
                   (let subtotal = num_mult (duration s) (rate e);
                        serviceFee = Math_round (num_mult subtotal (Fin (binary64 (5 / 100))));
                        total = num_add subtotal serviceFee
                    in Awaiting (s\<lparr>submitting := True\<rparr>)
                         \<lparr>equipment_id = id_equipment e,
                          booking_user_id = id_user u,
                          start_date = startDate (bookingData s),
                          end_date = endDate (bookingData s),
                          days = duration s,
                          rate_per_day = rate e,
                          subtotal = subtotal,
                          service_fee = serviceFee,
                          total_amount = total,
                          booking_status = ''pending'',
                          booking_notes =
                            (if notesText (bookingData s) \<noteq> '''' then Some (notesText (bookingData s))
                             else None)\<rparr>)))
      | _ \<Rightarrow> Returned [])"

text \<open>After the await: \<open>err\<close> is the error of the store's answer, if any.\<close>

definition handleBookingSubmit_resume :: "string option \<Rightarrow> State \<Rightarrow> State \<times> effect list" where
  "handleBookingSubmit_resume err s =
     (case err of
        None \<Rightarrow>
          (s\<lparr>showBookingModal := False, submitting := False\<rparr>,
           [Alert ''Booking request sent successfully! The owner will review and respond.'',
            Navigate ''/dashboard''])
      | Some msg \<Rightarrow>
          (s\<lparr>submitting := False\<rparr>,
           [ConsoleError ''Error creating booking:'' msg,
            Alert ''Failed to submit booking request. Please try again.'']))"

text \<open>The whole handler, against a store that answers each insert with an error or none.\<close>

definition handleBookingSubmit ::
  "User option \<Rightarrow> (string \<Rightarrow> Date) \<Rightarrow> int \<Rightarrow> (Booking \<Rightarrow> string option) \<Rightarrow> State
     \<Rightarrow> State \<times> effect list" where
  "handleBookingSubmit user newDate today store s =
     (case handleBookingSubmit_begin user newDate today s of
        Returned fx \<Rightarrow> (s, fx)
      | Awaiting s' b \<Rightarrow>
          (case handleBookingSubmit_resume (store b) s' of
             (s'', fx) \<Rightarrow> (s'', StoreInsert b # fx)))"

definition inserts :: "effect list \<Rightarrow> Booking list" where
  "inserts fx = concat (map (\<lambda>f. case f of StoreInsert b \<Rightarrow> [b] | _ \<Rightarrow> []) fx)"

subsection \<open>Loading the equipment\<close>


definition compareImages :: "Image \<Rightarrow> Image \<Rightarrow> int" where
  "compareImages a b = (if is_main b then 1 else if is_main a then - 1 else 0)"

definition fetchEquipmentDetails_begin :: "State \<Rightarrow> State" where
  "fetchEquipmentDetails_begin s = s\<lparr>loading := True\<rparr>"

text \<open>After the await: the answer's \<open>data\<close> and \<open>error\<close>.\<close>

definition fetchEquipmentDetails_resume ::
  "((Image \<Rightarrow> Image \<Rightarrow> int) \<Rightarrow> Image list \<Rightarrow> Image list) \<Rightarrow>
   EquipmentRow option \<Rightarrow> string option \<Rightarrow> State \<Rightarrow> State \<times> effect list" where
  "fetchEquipmentDetails_resume arraySort data error s =
     (case error of
        Some msg \<Rightarrow> (s\<lparr>loading := False\<rparr>, [ConsoleError ''Error fetching equipment:'' msg])
      | None \<Rightarrow>
          (case data of
             Some d \<Rightarrow>
               (let sortedImages =
                      (case equipment_images d of
                         Some imgs \<Rightarrow> arraySort compareImages imgs
                       | None \<Rightarrow> [])
                in (s\<lparr>equipment :=
                        Some \<lparr>id_equipment = row_id d, title = row_title d,
                              description = row_description d, type_equipment = row_type d,
                              location = row_location d, rate = row_rate d,
                              status = row_status d, user_id = row_user_id d,
                              user_profiles = row_user_profiles d,
                              images = sortedImages,
                              features = (case row_features d of Some fs \<Rightarrow> fs | None \<Rightarrow> [])\<rparr>,
                      loading := False\<rparr>, []))
           | None \<Rightarrow> (s\<lparr>loading := False\<rparr>, [])))"

definition fetchEquipmentDetails ::
  "((Image \<Rightarrow> Image \<Rightarrow> int) \<Rightarrow> Image list \<Rightarrow> Image list) \<Rightarrow>
   EquipmentRow option \<Rightarrow> string option \<Rightarrow> State \<Rightarrow> State \<times> effect list" where
  "fetchEquipmentDetails arraySort data error s =
     fetchEquipmentDetails_resume arraySort data error (fetchEquipmentDetails_begin s)"

subsection \<open>The view\<close>

datatype Gallery =
    NoImagesPlaceholder string
  | ImageGallery "string option" "string list"

datatype BookControl = YourEquipment | BookNow bool

record PriceBreakdown =
  shown_duration :: number
  shown_subtotal :: number
  shown_service_fee :: number
  shown_total :: number

record ModalView =
  priceBreakdown :: "PriceBreakdown option"
  cancelDisabled :: bool
  submitDisabled :: bool
  submitLabel :: string

record DetailView =
  gallery :: Gallery
  bookControl :: BookControl
  modal :: "ModalView option"

datatype View =
    LoadingView
  | NotFoundView string string
  | Detail DetailView

definition isOwner :: "User option \<Rightarrow> State \<Rightarrow> bool" where
  "isOwner user s =
     (case (user, equipment s) of
        (Some u, Some e) \<Rightarrow> id_user u = user_id e
      | _ \<Rightarrow> False)"

definition imagesToShow :: "State \<Rightarrow> string list" where
  "imagesToShow s = (case equipment s of Some e \<Rightarrow> map image_url (images e) | None \<Rightarrow> [])"

definition renderGallery :: "State \<Rightarrow> Gallery" where
  "renderGallery s =
     (if length (imagesToShow s) > 0 then
        ImageGallery
          (if currentImageIndex s < length (imagesToShow s)
           then Some (imagesToShow s ! currentImageIndex s) else None)
          (if length (imagesToShow s) > 1 then imagesToShow s else [])
      else NoImagesPlaceholder ''No images available'')"

definition renderModal :: "Equipment \<Rightarrow> State \<Rightarrow> ModalView" where
  "renderModal e s =
     \<lparr>priceBreakdown =
        (if num_gt (duration s) (Fin 0) then
           Some \<lparr>shown_duration = duration s,
                 shown_subtotal = num_mult (duration s) (rate e),
                 shown_service_fee =
                   Math_round (num_mult (num_mult (duration s) (rate e)) (Fin (binary64 (5 / 100)))),
                 shown_total = totalAmount s\<rparr>
         else None),
      cancelDisabled = submitting s,
      submitDisabled = (submitting s \<or> num_lt (duration s) (Fin 1)),
      submitLabel = (if submitting s then ''Submitting...'' else ''Request Booking'')\<rparr>"

definition render :: "User option \<Rightarrow> State \<Rightarrow> View" where
  "render user s =
     (if loading s then LoadingView
      else case equipment s of
        None \<Rightarrow> NotFoundView ''Equipment Not Found'' ''/equipment''
      | Some e \<Rightarrow>
          Detail
            \<lparr>gallery = renderGallery s,
             bookControl =
               (if isOwner user s then YourEquipment
                else BookNow (status e \<noteq> ''available'')),
             modal = (if showBookingModal s then Some (renderModal e s) else None)\<rparr>)"

text \<open>A click on the booking control: a disabled button does not fire its handler.\<close>

definition clickBookNow :: "User option \<Rightarrow> State \<Rightarrow> State" where
  "clickBookNow user s =
     (case render user s of
        Detail v \<Rightarrow>
          (case bookControl v of
             BookNow False \<Rightarrow> s\<lparr>showBookingModal := True\<rparr>
           | _ \<Rightarrow> s)
      | _ \<Rightarrow> s)"

subsection \<open>The page's events\<close>

text \<open>The modal's close button and its Cancel button, and a click on a thumbnail.\<close>

definition closeBookingModal :: "State \<Rightarrow> State" where
  "closeBookingModal s = s\<lparr>showBookingModal := False\<rparr>"

definition selectImage :: "nat \<Rightarrow> State \<Rightarrow> State" where
  "selectImage i s = s\<lparr>currentImageIndex := i\<rparr>"

text \<open>
  The states the component can be in: it starts in the initial state, and each event (an
  answer of the store, a handler, the totals effect) takes it to the next one. The two
  halves of an asynchronous function are separate steps, since other events may come
  between them.
\<close>

inductive reachable :: "(string \<Rightarrow> Date) \<Rightarrow> State \<Rightarrow> bool" for newDate where
  r_init: "reachable newDate initialState"
| r_fetch_begin: "reachable newDate s \<Longrightarrow> reachable newDate (fetchEquipmentDetails_begin s)"
| r_fetch_resume: "reachable newDate s \<Longrightarrow>
    reachable newDate (fst (fetchEquipmentDetails_resume arraySort data error s))"
| r_totals: "reachable newDate s \<Longrightarrow> reachable newDate (recomputeTotals s)"
| r_date: "reachable newDate s \<Longrightarrow> reachable newDate (handleDateChange newDate field v s)"
| r_notes: "reachable newDate s \<Longrightarrow> reachable newDate (handleNotesChange v s)"
| r_open: "reachable newDate s \<Longrightarrow> reachable newDate (clickBookNow user s)"
| r_close: "reachable newDate s \<Longrightarrow> reachable newDate (closeBookingModal s)"
| r_image: "reachable newDate s \<Longrightarrow> reachable newDate (selectImage i s)"
| r_submit_begin: "reachable newDate s \<Longrightarrow>
    handleBookingSubmit_begin user newDate today s = Awaiting s' b \<Longrightarrow> reachable newDate s'"
| r_submit_resume: "reachable newDate s \<Longrightarrow>
    reachable newDate (fst (handleBookingSubmit_resume err s))"

subsection \<open>A sample page\<close>

text \<open>
  A concrete page for evaluating the definitions: an available excavator at 100 per day,
  a renter who is not its owner, and a date constructor that knows three days of January
  2030 (their time values at midnight UTC) and parses nothing else.
\<close>

definition sampleDates :: "string \<Rightarrow> Date" where
  "sampleDates =
     map_of [(''2030-01-01'', 1893456000000), (''2030-01-04'', 1893715200000),
             (''2030-01-26'', 1895616000000)]"

definition sampleToday :: int where
  "sampleToday = 1893456000000"

definition sampleEquipment :: Equipment where
  "sampleEquipment =
     \<lparr>id_equipment = ''eq-1'', title = ''Excavator'', description = ''Tracked excavator'',
      type_equipment = ''earthmoving'', location = ''Durban'', rate = Fin 100,
      status = ''available'', user_id = ''owner-1'', user_profiles = None,
      images = [], features = []\<rparr>"

definition sampleUser :: User where
  "sampleUser = \<lparr>id_user = ''renter-1''\<rparr>"

definition sampleState :: State where
  "sampleState =
     \<lparr>equipment = Some sampleEquipment, loading = False, showBookingModal = True,
      bookingData = \<lparr>startDate = ''2030-01-01'', endDate = ''2030-01-04'', notesText = ''''\<rparr>,
      duration = Fin 3, totalAmount = Fin 315, submitting = False, currentImageIndex = 0\<rparr>"

text \<open>
  The same page for 25 days at a rate of 9.2, the number the page receives for it being
  the binary64 value nearest to 9.2.
\<close>

definition sampleFractional :: State where
  "sampleFractional =
     \<lparr>equipment = Some (sampleEquipment\<lparr>rate := Fin (binary64 (92 / 10))\<rparr>),
      loading = False, showBookingModal = True,
      bookingData = \<lparr>startDate = ''2030-01-01'', endDate = ''2030-01-26'', notesText = ''''\<rparr>,
      duration = Fin 25, totalAmount = Fin 0, submitting = False, currentImageIndex = 0\<rparr>"

text \<open>
  The row the store returns for the excavator, with three images of which the second is
  the main one, and the page after this row has arrived.
\<close>

definition sampleImages :: "Image list" where
  "sampleImages =
     [\<lparr>id_image = ''img-1'', image_url = ''side.jpg'', is_main = False\<rparr>,
      \<lparr>id_image = ''img-2'', image_url = ''front.jpg'', is_main = True\<rparr>,
      \<lparr>id_image = ''img-3'', image_url = ''cab.jpg'', is_main = False\<rparr>]"

definition sampleRow :: EquipmentRow where
  "sampleRow =
     \<lparr>row_id = ''eq-1'', row_title = ''Excavator'', row_description = ''Tracked excavator'',
      row_type = ''earthmoving'', row_location = ''Durban'', row_rate = Fin 100,
      row_status = ''available'', row_user_id = ''owner-1'', row_user_profiles = None,
      equipment_images = Some sampleImages, row_features = None\<rparr>"

text \<open>One engine's sort, for the sample page: a stable insertion sort.\<close>

fun sampleInsert :: "('a \<Rightarrow> 'a \<Rightarrow> int) \<Rightarrow> 'a \<Rightarrow> 'a list \<Rightarrow> 'a list" where
  "sampleInsert cmp x [] = [x]"
| "sampleInsert cmp x (y # ys) =
     (if cmp x y \<le> 0 then x # y # ys else y # sampleInsert cmp x ys)"

fun sampleSort :: "('a \<Rightarrow> 'a \<Rightarrow> int) \<Rightarrow> 'a list \<Rightarrow> 'a list" where
  "sampleSort cmp [] = []"
| "sampleSort cmp (x # xs) = sampleInsert cmp x (sampleSort cmp xs)"

definition sampleLoaded :: State where
  "sampleLoaded = fst (fetchEquipmentDetails sampleSort (Some sampleRow) None initialState)"



section \<open>Properties\<close>

subsection \<open>Auxiliary facts\<close>

lemmas sample_defs =
  sampleDates_def sampleToday_def sampleEquipment_def sampleUser_def sampleState_def

lemmas number_defs =
  num_sub_def num_div_def Math_abs_def Math_ceil_def
  num_lt_def num_gt_def num_ge_def truthy_def getTime_def date_lt_def date_ge_def

subsection \<open>Rounding to binary64\<close>

lemma round_even_error:
  "of_int (round_even y) \<le> y + 1 / 2 \<and> y - 1 / 2 \<le> of_int (round_even y)"
  unfolding round_even_def Let_def by (auto; linarith)

lemma round_even_of_int [simp]: "round_even (of_int n) = n"
  by (simp add: round_even_def)

lemma expo_bounds:
  assumes "x \<noteq> 0"
  shows "2 powi (expo x) \<le> \<bar>x\<bar> \<and> \<bar>x\<bar> < 2 powi (expo x + 1)"
proof -
  obtain p q where pq: "quotient_of \<bar>x\<bar> = (p, q)"
    by (cases "quotient_of \<bar>x\<bar>")
  then have q: "0 < q" and x: "\<bar>x\<bar> = of_int p / of_int q"
    by (simp_all add: quotient_of_denom_pos quotient_of_div)
  have "0 < (of_int p :: rat) / of_int q"
    using assms x by (metis zero_less_abs_iff)
  with q have p: "0 < p"
    by (simp add: zero_less_divide_iff)
  define P where "P = nat (bitlen p - 1)"
  define Q where "Q = nat (bitlen q - 1)"
  have "bitlen p \<noteq> 0" and "bitlen q \<noteq> 0"
    using p q by (simp_all add: bitlen_eq_zero_iff)
  then have "1 \<le> bitlen p" and "1 \<le> bitlen q"
    using bitlen_nonneg [of p] bitlen_nonneg [of q] by linarith+
  then have bp: "bitlen p = int P + 1" and bq: "bitlen q = int Q + 1"
    by (simp_all add: P_def Q_def)
  from bitlen_bounds [OF p] have p1: "2 ^ P \<le> p" and p2: "p < 2 ^ (P + 1)"
    unfolding bp by (simp_all add: nat_add_distrib)
  from bitlen_bounds [OF q] have q1: "2 ^ Q \<le> q" and q2: "q < 2 ^ (Q + 1)"
    unfolding bq by (simp_all add: nat_add_distrib)
  have rp1: "(2 :: rat) ^ P \<le> of_int p" and rp2: "(of_int p :: rat) < 2 ^ (P + 1)"
    using p1 p2 by (metis of_int_le_iff of_int_numeral of_int_power, metis of_int_less_iff of_int_numeral of_int_power)
  have rq1: "(2 :: rat) ^ Q \<le> of_int q" and rq2: "(of_int q :: rat) < 2 ^ (Q + 1)"
    using q1 q2 by (metis of_int_le_iff of_int_numeral of_int_power, metis of_int_less_iff of_int_numeral of_int_power)
  have k: "bitlen p - bitlen q = int P - int Q"
    by (simp add: bp bq)
  have lo: "(2 :: rat) powi (int P - int Q - 1) \<le> \<bar>x\<bar>"
  proof -
    have "(2 :: rat) powi (int P - int Q - 1) = 2 ^ P / 2 ^ (Q + 1)"
      by (simp add: power_int_diff)
    also have "\<dots> \<le> of_int p / of_int q"
      using rp1 rq2 q p by (intro frac_le) simp_all
    finally show ?thesis by (simp add: x)
  qed
  have hi: "\<bar>x\<bar> < (2 :: rat) powi (int P - int Q + 1)"
  proof -
    have "of_int p / of_int q < (2 :: rat) ^ (P + 1) / 2 ^ Q"
      using rp2 rq1 q p by (intro frac_less) simp_all
    also have "\<dots> = 2 powi (int P - int Q + 1)"
      by (simp add: power_int_diff power_int_add)
    finally show ?thesis by (simp add: x)
  qed
  show ?thesis
    using lo hi by (simp add: expo_def pq k Let_def)
qed

lemma expo_unique:
  assumes "2 powi e \<le> \<bar>x\<bar>" and "\<bar>x\<bar> < 2 powi (e + 1)"
  shows "expo x = e"
proof -
  have "(0 :: rat) < 2 powi e"
    by (simp add: zero_less_power_int)
  with assms(1) have "0 < \<bar>x\<bar>"
    by linarith
  then have nz: "x \<noteq> 0"
    by simp
  from expo_bounds [OF nz] assms
  have "(2 :: rat) powi e < 2 powi (expo x + 1)" and "(2 :: rat) powi (expo x) < 2 powi (e + 1)"
    by linarith+
  have "\<not> expo x + 1 \<le> e"
  proof
    assume "expo x + 1 \<le> e"
    then have "(2 :: rat) powi (expo x + 1) \<le> 2 powi e"
      by (intro power_int_increasing) simp_all
    with \<open>2 powi e < 2 powi (expo x + 1)\<close> show False by simp
  qed
  moreover have "\<not> e + 1 \<le> expo x"
  proof
    assume "e + 1 \<le> expo x"
    then have "(2 :: rat) powi (e + 1) \<le> 2 powi (expo x)"
      by (intro power_int_increasing) simp_all
    with \<open>2 powi (expo x) < 2 powi (e + 1)\<close> show False by simp
  qed
  ultimately show ?thesis by simp
qed


lemma binary64_in_binade:
  assumes "2 powi e \<le> \<bar>x\<bar>" and "\<bar>x\<bar> < 2 powi (e + 1)" and "- 1022 \<le> e"
  shows "binary64 x = of_int (round_even (x / 2 powi (e - 52))) * 2 powi (e - 52)"
proof -
  have "(0 :: rat) < 2 powi e"
    by (simp add: zero_less_power_int)
  with assms(1) have "0 < \<bar>x\<bar>"
    by linarith
  then have "x \<noteq> 0"
    by simp
  moreover have "expo x = e"
    using assms(1,2) by (rule expo_unique)
  ultimately show ?thesis
    using assms(3) by (simp add: binary64_def Let_def max_def)
qed

lemma binary64_0 [simp]: "binary64 0 = 0"
  by (simp add: binary64_def)

lemma round_even_eqI:
  assumes "of_int n - 1 / 2 < y" and "y < of_int n + 1 / 2"
  shows "round_even y = n"
proof -
  from round_even_error [of y] assms
  have "of_int (round_even y) < (of_int n :: rat) + 1" and "(of_int n :: rat) - 1 < of_int (round_even y)"
    by linarith+
  then have "round_even y < n + 1" and "n - 1 < round_even y"
    by (metis of_int_1 of_int_add of_int_less_iff, metis of_int_1 of_int_diff of_int_less_iff)
  then show ?thesis by simp
qed

lemma binary64_eqI:
  assumes "2 powi e \<le> \<bar>x\<bar>" and "\<bar>x\<bar> < 2 powi (e + 1)" and "- 1022 \<le> e"
    and "of_int n - 1 / 2 < x / 2 powi (e - 52)" and "x / 2 powi (e - 52) < of_int n + 1 / 2"
  shows "binary64 x = of_int n * 2 powi (e - 52)"
  using binary64_in_binade [OF assms(1-3)] round_even_eqI [OF assms(4,5)] by simp

lemma binary64_literal_005:
  "binary64 (5 / 100) = 3602879701896397 / 72057594037927936"
  by (rule binary64_eqI [where e = "- 5" and n = 7205759403792794, THEN trans]) simp_all

lemma expo_range:
  assumes "2 powi a \<le> \<bar>x\<bar>" and "\<bar>x\<bar> < 2 powi b"
  shows "a \<le> expo x \<and> expo x < b"
proof -
  have "(0 :: rat) < 2 powi a"
    by (simp add: zero_less_power_int)
  with assms(1) have "0 < \<bar>x\<bar>"
    by linarith
  then have "x \<noteq> 0"
    by simp
  from expo_bounds [OF this] assms
  have 1: "(2 :: rat) powi a < 2 powi (expo x + 1)" and 2: "(2 :: rat) powi (expo x) < 2 powi b"
    by linarith+
  have "\<not> expo x + 1 \<le> a"
  proof
    assume "expo x + 1 \<le> a"
    then have "(2 :: rat) powi (expo x + 1) \<le> 2 powi a"
      by (intro power_int_increasing) simp_all
    with 1 show False by simp
  qed
  moreover have "\<not> b \<le> expo x"
  proof
    assume "b \<le> expo x"
    then have "(2 :: rat) powi b \<le> 2 powi (expo x)"
      by (intro power_int_increasing) simp_all
    with 2 show False by simp
  qed
  ultimately show ?thesis by simp
qed

lemma binary64_scaled:
  assumes "x \<noteq> 0" and "- 1022 \<le> expo x" and "expo x \<le> 52"
  shows "binary64 x =
    of_int (round_even (x * 2 ^ nat (52 - expo x))) / 2 ^ nat (52 - expo x)"
proof -
  have "(2 :: rat) powi (expo x - 52) = 2 powi (- int (nat (52 - expo x)))"
    using assms(3) by simp
  also have "\<dots> = 1 / 2 ^ nat (52 - expo x)"
    by (simp only: power_int_minus_divide power_int_of_nat)
  finally have u: "(2 :: rat) powi (expo x - 52) = 1 / 2 ^ nat (52 - expo x)" .
  from assms(1,2) show ?thesis
    by (simp add: binary64_def Let_def max_def u)
qed

lemma binary64_of_int:
  assumes "\<bar>n\<bar> < 2 ^ 53"
  shows "binary64 (of_int n) = of_int n"
proof (cases "n = 0")
  case True
  then show ?thesis by simp
next
  case False
  let ?x = "of_int n :: rat"
  from False have "1 \<le> \<bar>n\<bar>" by simp
  then have "(1 :: rat) \<le> \<bar>?x\<bar>"
    by (metis of_int_1 of_int_abs of_int_le_iff)
  then have lo: "(2 :: rat) powi 0 \<le> \<bar>?x\<bar>" by simp
  from assms have "\<bar>?x\<bar> < 2 ^ 53"
    by (metis of_int_abs of_int_less_iff of_int_numeral of_int_power)
  then have hi: "\<bar>?x\<bar> < 2 powi 53" by simp
  from expo_range [OF lo hi] have e: "0 \<le> expo ?x" "expo ?x \<le> 52"
    by simp_all
  have nz: "?x \<noteq> 0" using False by simp
  have "?x * 2 ^ nat (52 - expo ?x) = of_int (n * 2 ^ nat (52 - expo ?x))"
    by simp
  then have "round_even (?x * 2 ^ nat (52 - expo ?x)) = n * 2 ^ nat (52 - expo ?x)"
    by (simp only: round_even_of_int)
  with binary64_scaled [OF nz _ e(2)] e(1) show ?thesis
    by simp
qed

lemma binary64_fee_bounds:
  fixes s :: int
  assumes "0 \<le> s" and "s \<le> 2 ^ 52"
  shows "of_int \<lfloor>(of_int s :: rat) / 20 + 1 / 2\<rfloor> - 1 / 2 \<le> binary64 (of_int s * binary64 (5 / 100)) \<and>
         binary64 (of_int s * binary64 (5 / 100)) < of_int \<lfloor>(of_int s :: rat) / 20 + 1 / 2\<rfloor> + 1 / 2"
proof (cases "s = 0")
  case True
  have "\<lfloor>1 / 2 :: rat\<rfloor> = 0"
    by (simp add: floor_eq_iff)
  with True show ?thesis by simp
next
  case False
  with assms(1) have s1: "1 \<le> s" by simp
  define S :: rat where "S = of_int s"
  define x :: rat where "x = S * (3602879701896397 / 72057594037927936)"
  have S1: "1 \<le> S" and S2: "S \<le> 2 ^ 52"
    using s1 assms(2) unfolding S_def
    by (metis of_int_1 of_int_le_iff, metis of_int_le_iff of_int_numeral of_int_power)
  have xlo: "S / 20 \<le> x" and xhi: "x \<le> S / 20 + 1 / 80"
    using S1 S2 unfolding x_def by simp_all
  have xpos: "0 < x" using xlo S1 by simp
  have lo: "(2 :: rat) powi (- 5) \<le> \<bar>x\<bar>"
    using xlo S1 by simp
  have hi: "\<bar>x\<bar> < 2 powi 48"
    using xhi S2 xpos by simp
  from expo_range [OF lo hi] have e: "- 5 \<le> expo x" "expo x \<le> 47"
    by simp_all
  define j where "j = nat (52 - expo x)"
  define T' :: int where "T' = 2 ^ (j - 1)"
  define R where "R = round_even (x * 2 ^ j)"
  have j5: "5 \<le> j" using e by (simp add: j_def)
  then have Tj: "(2 :: rat) ^ j = 2 * of_int T'"
    by (cases j) (simp_all add: T'_def)
  have "(2 :: int) ^ 4 \<le> 2 ^ (j - 1)"
    using j5 by (intro power_increasing) simp_all
  then have T16: "16 \<le> T'" by (simp add: T'_def)
  then have rT16: "(16 :: rat) \<le> of_int T'"
    by (metis of_int_le_iff of_int_numeral)
  have b: "binary64 x = of_int R / (2 * of_int T')"
    using binary64_scaled [of x] xpos e by (simp add: j_def [symmetric] R_def Tj)
  from round_even_error [of "x * 2 ^ j"]
  have R1: "of_int R \<le> x * (2 * of_int T') + 1 / 2" and R2: "x * (2 * of_int T') - 1 / 2 \<le> of_int R"
    by (simp_all add: R_def Tj)
  define N where "N = \<lfloor>S / 20 + 1 / 2\<rfloor>"
  have N1: "of_int N \<le> S / 20 + 1 / 2" and N2: "S / 20 + 1 / 2 < of_int N + 1"
    unfolding N_def by linarith+
  from N2 have "(of_int s :: rat) < of_int (20 * N + 10)"
    by (simp add: S_def)
  then have "s < 20 * N + 10"
    by (simp only: of_int_less_iff)
  then have "s \<le> 20 * N + 9" by simp
  then have "(of_int s :: rat) \<le> of_int (20 * N + 9)"
    by (simp only: of_int_le_iff)
  then have N3: "S \<le> 20 * of_int N + 9"
    by (simp add: S_def)
  have Tpos: "(0 :: rat) < of_int T'" using rT16 by simp
  have lower: "(2 * of_int N - 1) * of_int T' \<le> (of_int R :: rat)"
  proof -
    have "(of_int N - 1 / 2) * (2 * of_int T') \<le> x * (2 * of_int T')"
      using N1 xlo Tpos by (intro mult_right_mono) simp_all
    with R2 have "(2 * of_int N - 1) * of_int T' - 1 / 2 \<le> (of_int R :: rat)"
      by (simp add: algebra_simps)
    then have "(of_int ((2 * N - 1) * T' - 1) :: rat) < of_int R"
      by simp
    then have "(2 * N - 1) * T' - 1 < R"
      by (simp only: of_int_less_iff)
    then have "(2 * N - 1) * T' \<le> R" by simp
    then have "(of_int ((2 * N - 1) * T') :: rat) \<le> of_int R"
      by (simp only: of_int_le_iff)
    then show ?thesis by simp
  qed
  have upper: "(of_int R :: rat) \<le> (2 * of_int N + 1) * of_int T' - 1"
  proof -
    have "x \<le> of_int N + 37 / 80"
      using xhi N3 by simp
    then have "x * (2 * of_int T') \<le> (of_int N + 37 / 80) * (2 * of_int T')"
      using Tpos by (intro mult_right_mono) simp_all
    with R1 have "(of_int R :: rat) \<le> (2 * of_int N + 1) * of_int T' - 3 / 40 * of_int T' + 1 / 2"
      by (simp add: algebra_simps)
    with rT16 have "(of_int R :: rat) < (2 * of_int N + 1) * of_int T'"
      by simp
    then have "(of_int R :: rat) < of_int ((2 * N + 1) * T')"
      by simp
    then have "R < (2 * N + 1) * T'"
      by (simp only: of_int_less_iff)
    then have "R \<le> (2 * N + 1) * T' - 1" by simp
    then have "(of_int R :: rat) \<le> of_int ((2 * N + 1) * T' - 1)"
      by (simp only: of_int_le_iff)
    then show ?thesis by simp
  qed
  have v1: "of_int N \<le> binary64 x + 1 / 2"
    using lower Tpos by (simp add: b field_simps)
  have v2: "binary64 x + 1 / 2 < of_int N + 1"
    using upper Tpos by (simp add: b field_simps)
  from v1 v2 show ?thesis
    unfolding binary64_literal_005 by (simp add: x_def S_def N_def)
qed

lemma binary64_fee_round:
  fixes s :: int
  assumes "0 \<le> s" and "s \<le> 2 ^ 52"
  shows "\<lfloor>binary64 (of_int s * binary64 (5 / 100)) + 1 / 2\<rfloor> = \<lfloor>(of_int s :: rat) / 20 + 1 / 2\<rfloor>"
  using binary64_fee_bounds [OF assms] by (intro floor_unique) simp_all

lemma binary64_fee_small:
  fixes s :: int
  assumes "0 \<le> s" and "s \<le> 2 ^ 52"
  shows "\<bar>binary64 (of_int s * binary64 (5 / 100))\<bar> < 2 ^ 1024"
proof -
  let ?N = "\<lfloor>(of_int s :: rat) / 20 + 1 / 2\<rfloor>"
  have S: "(0 :: rat) \<le> of_int s" "(of_int s :: rat) \<le> 2 ^ 52"
    using assms by (simp, metis of_int_le_iff of_int_numeral of_int_power)
  have "(0 :: rat) \<le> of_int ?N"
    using S(1) by simp
  moreover have "(of_int ?N :: rat) \<le> of_int s / 20 + 1 / 2"
    by linarith
  ultimately have "\<bar>binary64 (of_int s * binary64 (5 / 100))\<bar> < 2 ^ 52 + 1"
    using binary64_fee_bounds [OF assms] S by linarith
  also have "\<dots> < (2 :: rat) ^ 1024"
    by simp
  finally show ?thesis .
qed

lemma overflow_Fin: "\<bar>x\<bar> < 2 ^ 1024 \<Longrightarrow> overflow x = Fin x"
  by (auto simp add: overflow_def)

lemma num_mult_int:
  assumes "\<bar>a * b\<bar> < 2 ^ 53"
  shows "num_mult (Fin (of_int a)) (Fin (of_int b)) = Fin (of_int (a * b))"
proof -
  have "binary64 (of_int a * of_int b) = of_int (a * b)"
    using binary64_of_int [OF assms] by simp
  moreover have "\<bar>of_int (a * b) :: rat\<bar> < 2 ^ 1024"
  proof -
    have "\<bar>of_int (a * b) :: rat\<bar> < 2 ^ 53"
      using assms by (metis of_int_abs of_int_less_iff of_int_numeral of_int_power)
    also have "\<dots> < (2 :: rat) ^ 1024" by simp
    finally show ?thesis .
  qed
  ultimately show ?thesis
    by (simp add: num_mult_def overflow_Fin del: of_int_mult)
qed

lemma num_add_int:
  assumes "\<bar>a + b\<bar> < 2 ^ 53"
  shows "num_add (Fin (of_int a)) (Fin (of_int b)) = Fin (of_int (a + b))"
proof -
  have "binary64 (of_int a + of_int b) = of_int (a + b)"
    using binary64_of_int [OF assms] by simp
  moreover have "\<bar>of_int (a + b) :: rat\<bar> < 2 ^ 1024"
  proof -
    have "\<bar>of_int (a + b) :: rat\<bar> < 2 ^ 53"
      using assms by (metis of_int_abs of_int_less_iff of_int_numeral of_int_power)
    also have "\<dots> < (2 :: rat) ^ 1024" by simp
    finally show ?thesis .
  qed
  ultimately show ?thesis
    by (simp add: num_add_def overflow_Fin del: of_int_add)
qed

lemma service_fee_int:
  assumes "0 \<le> s" and "s \<le> 2 ^ 52"
  shows "Math_round (num_mult (Fin (of_int s)) (Fin (binary64 (5 / 100)))) =
    Fin (of_int \<lfloor>(of_int s :: rat) / 20 + 1 / 2\<rfloor>)"
  unfolding num_mult_def
  using binary64_fee_round [OF assms] overflow_Fin [OF binary64_fee_small [OF assms]]
  by (simp add: Math_round_def)

text \<open>The sample page's prices: 3 days at 100.\<close>

lemma sample_subtotal: "num_mult (Fin 3) (Fin 100) = Fin 300"
  using num_mult_int [of 3 100] by simp

lemma sample_service_fee: "Math_round (num_mult (Fin 300) (Fin (binary64 (1 / 20)))) = Fin 15"
proof -
  have "\<lfloor>(300 :: rat) / 20 + 1 / 2\<rfloor> = 15"
    by (simp add: floor_eq_iff)
  with service_fee_int [of 300] show ?thesis by simp
qed

lemma sample_total: "num_add (Fin 300) (Fin 15) = Fin 315"
  using num_add_int [of 300 15] by simp

lemmas sample_prices = sample_subtotal sample_service_fee sample_total


lemma sampleLoaded_eq:
  "sampleLoaded =
     \<lparr>equipment =
        Some \<lparr>id_equipment = ''eq-1'', title = ''Excavator'',
              description = ''Tracked excavator'', type_equipment = ''earthmoving'',
              location = ''Durban'', rate = Fin 100, status = ''available'',
              user_id = ''owner-1'', user_profiles = None,
              images =
                [\<lparr>id_image = ''img-2'', image_url = ''front.jpg'', is_main = True\<rparr>,
                 \<lparr>id_image = ''img-1'', image_url = ''side.jpg'', is_main = False\<rparr>,
                 \<lparr>id_image = ''img-3'', image_url = ''cab.jpg'', is_main = False\<rparr>],
              features = []\<rparr>,
      loading = False, showBookingModal = False,
      bookingData = \<lparr>startDate = '''', endDate = '''', notesText = ''''\<rparr>,
      duration = Fin 0, totalAmount = Fin 0, submitting = False, currentImageIndex = 0\<rparr>"
  by (simp add: sampleLoaded_def fetchEquipmentDetails_def fetchEquipmentDetails_begin_def
      fetchEquipmentDetails_resume_def sampleRow_def sampleImages_def initialState_def
      compareImages_def Let_def)

lemma sampleLoaded_reachable: "reachable newDate sampleLoaded"
  unfolding sampleLoaded_def fetchEquipmentDetails_def
  by (intro r_fetch_resume r_fetch_begin r_init)


lemma round_half_up_bounds:
  fixes x :: rat
  shows "of_int \<lfloor>x + 1 / 2\<rfloor> - 1 / 2 \<le> x \<and> x < of_int \<lfloor>x + 1 / 2\<rfloor> + 1 / 2"
  by linarith

lemma sample_begin:
  "handleBookingSubmit_begin (Some sampleUser) sampleDates sampleToday sampleState =
     Awaiting (sampleState\<lparr>submitting := True\<rparr>)
       \<lparr>equipment_id = ''eq-1'', booking_user_id = ''renter-1'',
        start_date = ''2030-01-01'', end_date = ''2030-01-04'', days = Fin 3,
        rate_per_day = Fin 100, subtotal = Fin 300, service_fee = Fin 15,
        total_amount = Fin 315, booking_status = ''pending'', booking_notes = None\<rparr>"
  by (simp add: handleBookingSubmit_begin_def sampleUser_def sampleDates_def sampleToday_def
      sampleState_def sampleEquipment_def date_lt_def date_ge_def getTime_def num_lt_def
      num_ge_def sample_prices Let_def)

subsection \<open>Duration\<close>

lemma calculateDuration_cases:
  "calculateDuration newDate start end' =
     (case (newDate start, newDate end') of
        (Some a, Some b) \<Rightarrow> Fin (of_int \<lceil>of_int \<bar>b - a\<bar> / (86400000 :: rat)\<rceil>)
      | _ \<Rightarrow> NaN)"
  by (simp add: calculateDuration_def getTime_def num_sub_def num_add_def num_neg_def
      Math_abs_def num_div_def Math_ceil_def Let_def split: option.splits)

lemma handleDateChange_bookingData:
  "bookingData (handleDateChange newDate field v s) =
     (case field of
        StartDateField \<Rightarrow> (bookingData s)\<lparr>startDate := v\<rparr>
      | EndDateField \<Rightarrow> (bookingData s)\<lparr>endDate := v\<rparr>)"
  by (cases field) (simp_all add: handleDateChange_def Let_def)

lemma handleDateChange_duration:
  "duration (handleDateChange newDate field v s) =
     (if startDate (bookingData (handleDateChange newDate field v s)) = '''' \<or>
         endDate (bookingData (handleDateChange newDate field v s)) = ''''
      then Fin 0
      else calculateDuration newDate
             (startDate (bookingData (handleDateChange newDate field v s)))
             (endDate (bookingData (handleDateChange newDate field v s))))"
  by (cases field) (simp_all add: handleDateChange_def Let_def)

text \<open>
  Claim C2. For every pair of date strings the duration is the ceiling of the absolute
  difference of the two parsed time values, in milliseconds, divided by 86,400,000 (and NaN
  when one of the strings does not parse). A change of a date field stores the new string,
  and sets the duration to 0 when the start or the end field is then empty, to the computed
  duration otherwise.
\<close>

theorem duration_is_ceiling_of_day_difference:
  "calculateDuration newDate start end' =
     (case (newDate start, newDate end') of
        (Some a, Some b) \<Rightarrow> Fin (of_int \<lceil>of_int \<bar>b - a\<bar> / (86400000 :: rat)\<rceil>)
      | _ \<Rightarrow> NaN) \<and>
   bookingData (handleDateChange newDate field v s) =
     (case field of
        StartDateField \<Rightarrow> (bookingData s)\<lparr>startDate := v\<rparr>
      | EndDateField \<Rightarrow> (bookingData s)\<lparr>endDate := v\<rparr>) \<and>
   duration (handleDateChange newDate field v s) =
     (if startDate (bookingData (handleDateChange newDate field v s)) = '''' \<or>
         endDate (bookingData (handleDateChange newDate field v s)) = ''''
      then Fin 0
      else calculateDuration newDate
             (startDate (bookingData (handleDateChange newDate field v s)))
             (endDate (bookingData (handleDateChange newDate field v s))))"
  using calculateDuration_cases handleDateChange_bookingData handleDateChange_duration
  by blast

theorem duration_is_ceiling_of_day_difference_witness:
  "calculateDuration sampleDates ''2030-01-01'' ''2030-01-04'' = Fin 3 \<and>
   duration (handleDateChange sampleDates EndDateField '''' sampleState) = Fin 0 \<and>
   calculateDuration (\<lambda>x. if x = ''a'' then Some 0 else Some 86400001) ''a'' ''b'' = Fin 2"
proof -
  note a = duration_is_ceiling_of_day_difference [of sampleDates "''2030-01-01''"
      "''2030-01-04''" EndDateField "''''" sampleState]
  note b = duration_is_ceiling_of_day_difference
    [of "\<lambda>x. if x = ''a'' then Some 0 else Some 86400001" "''a''" "''b''"
      EndDateField "''''" sampleState]
  from a have 1: "calculateDuration sampleDates ''2030-01-01'' ''2030-01-04'' = Fin 3"
    by (simp add: sampleDates_def ceiling_eq_iff)
  from a have "bookingData (handleDateChange sampleDates EndDateField '''' sampleState) =
      (bookingData sampleState)\<lparr>endDate := ''''\<rparr>"
    by simp
  with a have 2: "duration (handleDateChange sampleDates EndDateField '''' sampleState) = Fin 0"
    by simp
  from b have 3:
    "calculateDuration (\<lambda>x. if x = ''a'' then Some 0 else Some 86400001) ''a'' ''b'' = Fin 2"
    by (simp add: ceiling_eq_iff)
  from 1 2 3 show ?thesis by blast
qed

subsection \<open>The submit handler, branch by branch\<close>

lemma begin_no_session:
  "user = None \<or> equipment s = None \<Longrightarrow>
   handleBookingSubmit_begin user newDate today s = Returned []"
  by (auto simp add: handleBookingSubmit_begin_def split: option.splits)

lemma begin_owner:
  "user = Some u \<Longrightarrow> equipment s = Some e \<Longrightarrow> id_user u = user_id e \<Longrightarrow>
   handleBookingSubmit_begin user newDate today s =
     Returned [Alert ''You cannot book your own equipment'']"
  by (simp add: handleBookingSubmit_begin_def)

lemma begin_past:
  "user = Some u \<Longrightarrow> equipment s = Some e \<Longrightarrow> id_user u \<noteq> user_id e \<Longrightarrow>
   date_lt (newDate (startDate (bookingData s))) (Some today) \<Longrightarrow>
   handleBookingSubmit_begin user newDate today s =
     Returned [Alert ''Start date cannot be in the past'']"
  by (simp add: handleBookingSubmit_begin_def Let_def)

lemma begin_order:
  "user = Some u \<Longrightarrow> equipment s = Some e \<Longrightarrow> id_user u \<noteq> user_id e \<Longrightarrow>
   \<not> date_lt (newDate (startDate (bookingData s))) (Some today) \<Longrightarrow>
   date_ge (newDate (startDate (bookingData s))) (newDate (endDate (bookingData s))) \<Longrightarrow>
   handleBookingSubmit_begin user newDate today s =
     Returned [Alert ''End date must be after start date'']"
  by (simp add: handleBookingSubmit_begin_def Let_def)

lemma begin_minimum:
  "user = Some u \<Longrightarrow> equipment s = Some e \<Longrightarrow> id_user u \<noteq> user_id e \<Longrightarrow>
   \<not> date_lt (newDate (startDate (bookingData s))) (Some today) \<Longrightarrow>
   \<not> date_ge (newDate (startDate (bookingData s))) (newDate (endDate (bookingData s))) \<Longrightarrow>
   num_lt (duration s) (Fin 1) \<Longrightarrow>
   handleBookingSubmit_begin user newDate today s =
     Returned [Alert ''Minimum booking duration is 1 day'']"
  by (simp add: handleBookingSubmit_begin_def Let_def)

lemma begin_valid:
  "user = Some u \<Longrightarrow> equipment s = Some e \<Longrightarrow> id_user u \<noteq> user_id e \<Longrightarrow>
   \<not> date_lt (newDate (startDate (bookingData s))) (Some today) \<Longrightarrow>
   \<not> date_ge (newDate (startDate (bookingData s))) (newDate (endDate (bookingData s))) \<Longrightarrow>
   \<not> num_lt (duration s) (Fin 1) \<Longrightarrow>
   handleBookingSubmit_begin user newDate today s =
     Awaiting (s\<lparr>submitting := True\<rparr>)
       \<lparr>equipment_id = id_equipment e,
        booking_user_id = id_user u,
        start_date = startDate (bookingData s),
        end_date = endDate (bookingData s),
        days = duration s,
        rate_per_day = rate e,
        subtotal = num_mult (duration s) (rate e),
        service_fee = Math_round (num_mult (num_mult (duration s) (rate e)) (Fin (binary64 (5 / 100)))),
        total_amount =
          num_add (num_mult (duration s) (rate e))
            (Math_round (num_mult (num_mult (duration s) (rate e)) (Fin (binary64 (5 / 100))))),
        booking_status = ''pending'',
        booking_notes =
          (if notesText (bookingData s) \<noteq> '''' then Some (notesText (bookingData s))
           else None)\<rparr>"
  by (simp add: handleBookingSubmit_begin_def Let_def)

lemma begin_Awaiting_valid:
  assumes "handleBookingSubmit_begin user newDate today s = Awaiting s' b"
  shows "\<exists>u e. user = Some u \<and> equipment s = Some e \<and> id_user u \<noteq> user_id e \<and>
           \<not> date_lt (newDate (startDate (bookingData s))) (Some today) \<and>
           \<not> date_ge (newDate (startDate (bookingData s))) (newDate (endDate (bookingData s))) \<and>
           \<not> num_lt (duration s) (Fin 1) \<and> s' = s\<lparr>submitting := True\<rparr>"
  using assms
  by (auto simp add: handleBookingSubmit_begin_def Let_def split: option.splits if_splits)

lemma handle_Returned:
  "handleBookingSubmit_begin user newDate today s = Returned fx \<Longrightarrow>
   handleBookingSubmit user newDate today store s = (s, fx)"
  by (simp add: handleBookingSubmit_def)

lemma handle_Awaiting:
  "handleBookingSubmit_begin user newDate today s = Awaiting s' b \<Longrightarrow>
   handleBookingSubmit user newDate today store s =
     (fst (handleBookingSubmit_resume (store b) s'),
      StoreInsert b # snd (handleBookingSubmit_resume (store b) s'))"
  by (simp add: handleBookingSubmit_def split: prod.splits)

lemma inserts_resume: "inserts (snd (handleBookingSubmit_resume err s)) = []"
  by (simp add: handleBookingSubmit_resume_def inserts_def split: option.splits)

lemma submitting_resume: "\<not> submitting (fst (handleBookingSubmit_resume err s))"
  by (simp add: handleBookingSubmit_resume_def split: option.splits)

subsection \<open>Pricing\<close>

lemma sum_below_2_53:
  fixes a n :: int
  assumes "0 \<le> a" and "a \<le> 2 ^ 52" and "0 \<le> n" and "n \<le> 2 ^ 50"
  shows "\<bar>a + n\<bar> < 2 ^ 53"
  using assms by simp

text \<open>The prices of a whole-number rate, as long as the subtotal is at most \<open>2^52\<close>.\<close>

lemma price_of_whole_rate:
  fixes d r :: int
  assumes "1 \<le> d" and "0 \<le> r" and "d * r \<le> 2 ^ 52"
  shows "num_mult (Fin (of_int d)) (Fin (of_int r)) = Fin (of_int (d * r))"
    and "Math_round (num_mult (Fin (of_int (d * r))) (Fin (binary64 (5 / 100)))) =
      Fin (of_int \<lfloor>(of_int (d * r) :: rat) / 20 + 1 / 2\<rfloor>)"
    and "num_add (Fin (of_int (d * r))) (Fin (of_int \<lfloor>(of_int (d * r) :: rat) / 20 + 1 / 2\<rfloor>)) =
      Fin (of_int (d * r + \<lfloor>(of_int (d * r) :: rat) / 20 + 1 / 2\<rfloor>))"
proof -
  let ?N = "\<lfloor>(of_int (d * r) :: rat) / 20 + 1 / 2\<rfloor>"
  from assms(1,2) have s0: "0 \<le> d * r" by simp
  with assms(3) have "\<bar>d * r\<bar> < 2 ^ 53" by simp
  then show "num_mult (Fin (of_int d)) (Fin (of_int r)) = Fin (of_int (d * r))"
    by (rule num_mult_int)
  from s0 assms(3)
  show "Math_round (num_mult (Fin (of_int (d * r))) (Fin (binary64 (5 / 100)))) =
      Fin (of_int ?N)"
    by (rule service_fee_int)
  have "(0 :: rat) \<le> of_int (d * r)" and "(of_int (d * r) :: rat) \<le> 2 ^ 52"
    using s0 assms(3)
    by (metis of_int_0_le_iff, metis of_int_le_iff of_int_numeral of_int_power)
  then have "(0 :: rat) \<le> of_int (d * r) / 20 + 1 / 2"
    and "(of_int (d * r) :: rat) / 20 + 1 / 2 \<le> 2 ^ 50"
    by simp_all
  then have "0 \<le> ?N" and "?N \<le> 2 ^ 50"
    by (simp_all add: le_floor_iff floor_le_iff)
  with s0 assms(3) have "\<bar>d * r + ?N\<bar> < 2 ^ 53"
    by (intro sum_below_2_53)
  then show "num_add (Fin (of_int (d * r))) (Fin (of_int ?N)) = Fin (of_int (d * r + ?N))"
    by (rule num_add_int)
qed

text \<open>The prices of 25 days at 9.2.\<close>

lemma fractional_rate: "binary64 (92 / 10) = 2589569785738035 / 281474976710656"
  by (rule binary64_eqI [where e = 3 and n = 5179139571476070, THEN trans]) simp_all

lemma fractional_subtotal:
  "num_mult (Fin 25) (Fin (binary64 (92 / 10))) = Fin (230 - 1 / 2 ^ 45)"
proof -
  have "binary64 (25 * (2589569785738035 / 281474976710656)) = 230 - 1 / 2 ^ 45"
    by (rule binary64_eqI [where e = 7 and n = 8092405580431359, THEN trans]) simp_all
  then show ?thesis
    unfolding num_mult_def fractional_rate by (simp add: overflow_def)
qed

lemma fractional_service_fee:
  "Math_round (num_mult (Fin (230 - 1 / 2 ^ 45)) (Fin (binary64 (5 / 100)))) = Fin 12"
proof -
  have "binary64 ((230 - 1 / 2 ^ 45) * (3602879701896397 / 72057594037927936)) = 23 / 2"
    by (rule binary64_eqI [where e = 3 and n = 6473924464345088, THEN trans]) simp_all
  then have "num_mult (Fin (230 - 1 / 2 ^ 45)) (Fin (binary64 (5 / 100))) = overflow (23 / 2)"
    unfolding num_mult_def binary64_literal_005 by (simp only: prod.case number.case)
  also have "\<dots> = Fin (23 / 2)"
    by (simp add: overflow_def)
  finally have m: "num_mult (Fin (230 - 1 / 2 ^ 45)) (Fin (binary64 (5 / 100))) = Fin (23 / 2)" .
  have "\<lfloor>(23 :: rat) / 2 + 1 / 2\<rfloor> = 12"
    by (simp add: floor_eq_iff)
  then show ?thesis
    unfolding m by (simp add: Math_round_def)
qed

lemma fractional_total:
  "num_add (Fin (230 - 1 / 2 ^ 45)) (Fin 12) = Fin (242 - 1 / 2 ^ 45)"
proof -
  have "binary64 ((230 - 1 / 2 ^ 45) + 12) = 242 - 1 / 2 ^ 45"
    by (rule binary64_eqI [where e = 7 and n = 8514618045497343, THEN trans]) simp_all
  then show ?thesis
    unfolding num_add_def by (simp add: overflow_def)
qed

text \<open>
  Claim C1 says that every duration \<open>d \<ge> 1\<close> and rate \<open>r \<ge> 0\<close> give the subtotal
  \<open>d * r\<close> and as fee the subtotal's 5% rounded half up. The page computes in binary64:
  for 25 days at 9.2 it sends the subtotal 229.99999999999997 (which is \<open>230 - 2^-45\<close>),
  the fee 12 and the total 241.99999999999997, and shows that total. The subtotal is
  neither 25 times 9.2 nor 25 times the binary64 value of 9.2, and 5% of it rounds half up
  to 11, not to 12.
\<close>

theorem fractional_rate_prices_counterexample:
  "(\<exists>s' b. handleBookingSubmit_begin (Some sampleUser) sampleDates sampleToday sampleFractional
            = Awaiting s' b \<and>
          days b = Fin 25 \<and> rate_per_day b = Fin (binary64 (92 / 10)) \<and>
          subtotal b = Fin (230 - 1 / 2 ^ 45) \<and>
          service_fee b = Fin 12 \<and>
          total_amount b = Fin (242 - 1 / 2 ^ 45)) \<and>
   totalAmount (recomputeTotals sampleFractional) = Fin (242 - 1 / 2 ^ 45) \<and>
   (230 - 1 / 2 ^ 45 :: rat) \<noteq> 25 * (92 / 10) \<and>
   (230 - 1 / 2 ^ 45 :: rat) \<noteq> 25 * binary64 (92 / 10) \<and>
   \<lfloor>(5 / 100) * (230 - 1 / 2 ^ 45 :: rat) + 1 / 2\<rfloor> = 11 \<and>
   \<lfloor>binary64 (5 / 100) * (230 - 1 / 2 ^ 45 :: rat) + 1 / 2\<rfloor> = 11"
proof -
  let ?sub = "Fin (230 - 1 / 2 ^ 45)"
  have valid: "id_user sampleUser \<noteq> user_id (sampleEquipment\<lparr>rate := Fin (binary64 (92 / 10))\<rparr>)"
    "\<not> date_lt (sampleDates (startDate (bookingData sampleFractional))) (Some sampleToday)"
    "\<not> date_ge (sampleDates (startDate (bookingData sampleFractional)))
        (sampleDates (endDate (bookingData sampleFractional)))"
    "\<not> num_lt (duration sampleFractional) (Fin 1)"
    and eq: "equipment sampleFractional = Some (sampleEquipment\<lparr>rate := Fin (binary64 (92 / 10))\<rparr>)"
    by (simp_all add: sampleFractional_def sample_defs number_defs)
  have d: "duration sampleFractional = Fin 25"
    and r: "rate (sampleEquipment\<lparr>rate := Fin (binary64 (92 / 10))\<rparr>) = Fin (binary64 (92 / 10))"
    by (simp_all add: sampleFractional_def)
  note b = begin_valid [OF refl eq valid, unfolded d r fractional_subtotal
      fractional_service_fee fractional_total]
  have 1: "\<exists>s' b. handleBookingSubmit_begin (Some sampleUser) sampleDates sampleToday
        sampleFractional = Awaiting s' b \<and>
      days b = Fin 25 \<and> rate_per_day b = Fin (binary64 (92 / 10)) \<and>
      subtotal b = ?sub \<and> service_fee b = Fin 12 \<and>
      total_amount b = Fin (242 - 1 / 2 ^ 45)"
    unfolding b by simp
  have "num_gt (Fin 25) (Fin 0)" and "truthy (Fin (binary64 (92 / 10)))"
    unfolding fractional_rate by (simp_all add: num_gt_def truthy_def)
  then have "recomputeTotals sampleFractional =
      sampleFractional\<lparr>totalAmount := Fin (242 - 1 / 2 ^ 45)\<rparr>"
    unfolding recomputeTotals_def eq d Let_def
    by (simp only: option.case r if_True simp_thms fractional_subtotal fractional_service_fee
        fractional_total)
  then have 2: "totalAmount (recomputeTotals sampleFractional) = Fin (242 - 1 / 2 ^ 45)"
    by simp
  have 3: "(230 - 1 / 2 ^ 45 :: rat) \<noteq> 25 * (92 / 10)"
    and 4: "(230 - 1 / 2 ^ 45 :: rat) \<noteq> 25 * binary64 (92 / 10)"
    unfolding fractional_rate by simp_all
  have 5: "\<lfloor>(5 / 100) * (230 - 1 / 2 ^ 45 :: rat) + 1 / 2\<rfloor> = 11"
    and 6: "\<lfloor>binary64 (5 / 100) * (230 - 1 / 2 ^ 45 :: rat) + 1 / 2\<rfloor> = 11"
    unfolding binary64_literal_005 by (simp_all add: floor_eq_iff)
  from 1 2 3 4 5 6 show ?thesis by (intro conjI)
qed

text \<open>
  Claim C1, amended. For a duration \<open>d \<ge> 1\<close> and a whole-number daily rate \<open>r \<ge> 0\<close>
  with \<open>d * r\<close> at most \<open>2^52\<close>, the effect that recomputes the total and the submit
  handler both price the booking as subtotal \<open>d * r\<close>, service fee the integer nearest
  to 5% of the subtotal with a tie rounded up (the one integer \<open>fee\<close> with
  \<open>fee - 1/2 \<le> 0.05 * subtotal < fee + 1/2\<close>), and total subtotal plus fee: the effect
  stores the total, the handler sends all three. For rate 100 and duration 3 these are
  300, 15 and 315.
\<close>

theorem pricing_subtotal_fee_total:
  fixes d r :: int
  assumes "1 \<le> d" and "0 \<le> r" and "d * r \<le> 2 ^ 52"
    and "duration s = Fin (of_int d)" and "equipment s = Some e" and "rate e = Fin (of_int r)"
  shows "\<exists>fee :: int.
           of_int fee - 1 / 2 \<le> (5 / 100) * (of_int (d * r) :: rat) \<and>
           (5 / 100) * (of_int (d * r) :: rat) < of_int fee + 1 / 2 \<and>
           totalAmount (recomputeTotals s) = Fin (of_int (d * r + fee)) \<and>
           (handleBookingSubmit_begin user newDate today s = Awaiting s' b \<longrightarrow>
              subtotal b = Fin (of_int (d * r)) \<and>
              service_fee b = Fin (of_int fee) \<and>
              total_amount b = Fin (of_int (d * r + fee))) \<and>
           (d = 3 \<and> r = 100 \<longrightarrow> d * r = 300 \<and> fee = 15 \<and> d * r + fee = 315)"
proof (intro exI [of _ "\<lfloor>(of_int (d * r) :: rat) / 20 + 1 / 2\<rfloor>"] conjI)
  let ?N = "\<lfloor>(of_int (d * r) :: rat) / 20 + 1 / 2\<rfloor>"
  note price = price_of_whole_rate [OF assms(1-3)]
  show "of_int ?N - 1 / 2 \<le> (5 / 100) * (of_int (d * r) :: rat)"
    and "(5 / 100) * (of_int (d * r) :: rat) < of_int ?N + 1 / 2"
    using round_half_up_bounds [of "(of_int (d * r) :: rat) / 20"] by simp_all
  show "totalAmount (recomputeTotals s) = Fin (of_int (d * r + ?N))"
  proof (cases "r = 0")
    case True
    have "\<lfloor>1 / 2 :: rat\<rfloor> = 0" by (simp add: floor_eq_iff)
    with True assms show ?thesis
      by (simp add: recomputeTotals_def num_gt_def truthy_def)
  next
    case False
    with assms(1,2) have "num_gt (Fin (of_int d)) (Fin 0)" and "truthy (Fin (of_int r))"
      by (simp_all add: num_gt_def truthy_def)
    then have "recomputeTotals s = s\<lparr>totalAmount := Fin (of_int (d * r + ?N))\<rparr>"
      unfolding recomputeTotals_def assms(4,5) Let_def
      by (simp only: option.case assms(6) if_True simp_thms price)
    then show ?thesis
      by simp
  qed
  show "handleBookingSubmit_begin user newDate today s = Awaiting s' b \<longrightarrow>
          subtotal b = Fin (of_int (d * r)) \<and>
          service_fee b = Fin (of_int ?N) \<and>
          total_amount b = Fin (of_int (d * r + ?N))"
  proof
    assume aw: "handleBookingSubmit_begin user newDate today s = Awaiting s' b"
    from begin_Awaiting_valid [OF aw] assms(5) obtain u where
      v: "user = Some u" "id_user u \<noteq> user_id e"
      "\<not> date_lt (newDate (startDate (bookingData s))) (Some today)"
      "\<not> date_ge (newDate (startDate (bookingData s))) (newDate (endDate (bookingData s)))"
      "\<not> num_lt (duration s) (Fin 1)"
      by auto
    from begin_valid [OF v(1) assms(5) v(2-5), unfolded assms(4,6) price] aw
    show "subtotal b = Fin (of_int (d * r)) \<and>
          service_fee b = Fin (of_int ?N) \<and>
          total_amount b = Fin (of_int (d * r + ?N))"
      by auto
  qed
  show "d = 3 \<and> r = 100 \<longrightarrow> d * r = 300 \<and> ?N = 15 \<and> d * r + ?N = 315"
    by (auto simp: floor_eq_iff)
qed

theorem pricing_subtotal_fee_total_witness:
  "totalAmount (recomputeTotals sampleState) = Fin 315 \<and>
   (\<exists>s' b. handleBookingSubmit_begin (Some sampleUser) sampleDates sampleToday sampleState
             = Awaiting s' b \<and>
           subtotal b = Fin 300 \<and> service_fee b = Fin 15 \<and> total_amount b = Fin 315)"
proof -
  have d: "duration sampleState = Fin (of_int 3)"
    and e: "equipment sampleState = Some sampleEquipment"
    and r: "rate sampleEquipment = Fin (of_int 100)"
    by (simp_all add: sampleState_def sampleEquipment_def)
  obtain s' b where
    sb: "handleBookingSubmit_begin (Some sampleUser) sampleDates sampleToday sampleState
           = Awaiting s' b"
    using sample_begin by blast
  from pricing_subtotal_fee_total [of 3 100 sampleState sampleEquipment "Some sampleUser"
      sampleDates sampleToday s' b, OF _ _ _ d e r] sb
  show ?thesis by auto
qed

subsection \<open>The duration follows the date fields\<close>

text \<open>The duration in the state follows the date fields in every state of the page.\<close>

lemma reachable_durationSynced:
  "reachable newDate s \<Longrightarrow> durationSynced newDate s"
proof (induction rule: reachable.induct)
  case r_init
  show ?case by (simp add: durationSynced_def initialState_def)
next
  case (r_fetch_begin s)
  then show ?case by (simp add: durationSynced_def fetchEquipmentDetails_begin_def)
next
  case (r_fetch_resume s arraySort data error)
  then show ?case
    by (simp add: durationSynced_def fetchEquipmentDetails_resume_def Let_def
        split: option.splits)
next
  case (r_totals s)
  then show ?case
    by (simp add: durationSynced_def recomputeTotals_def Let_def split: option.splits)
next
  case (r_date s field v)
  show ?case
    unfolding durationSynced_def using handleDateChange_duration [of newDate field v s]
    by simp
next
  case (r_notes s v)
  then show ?case by (simp add: durationSynced_def handleNotesChange_def)
next
  case (r_open s user)
  then show ?case
    by (simp add: durationSynced_def clickBookNow_def
        split: View.splits BookControl.splits bool.splits)
next
  case (r_close s)
  then show ?case by (simp add: durationSynced_def closeBookingModal_def)
next
  case (r_image s i)
  then show ?case by (simp add: durationSynced_def selectImage_def)
next
  case (r_submit_begin s user today s' b)
  then show ?case
    by (auto simp add: durationSynced_def handleBookingSubmit_begin_def Let_def
        split: option.splits if_splits)
next
  case (r_submit_resume s err)
  then show ?case
    by (simp add: durationSynced_def handleBookingSubmit_resume_def split: option.splits)
qed

subsection \<open>Validation\<close>

text \<open>
  Claim C3. A submission is rejected, with the state unchanged and nothing sent to the
  store, when the user is the equipment's owner, when the start date is before today (the
  current day with its time of day zeroed), when the start date is on or after the end date,
  or when the duration is less than 1. With a user and an equipment present the checks run
  in this order, and the first that fails shows its own message and nothing else. The
  conditions are the handler's comparisons of parsed dates and of numbers: they are false
  for a date string that does not parse and for a duration that is NaN. In a state of the
  page whose two date fields each hold the empty string or a string that parses, a
  submission whose start date is not strictly before its end date (a missing date
  included) is rejected as well.
\<close>

theorem submit_rejected_without_insert:
  "(isOwner user s \<or>
    date_lt (newDate (startDate (bookingData s))) (Some today) \<or>
    date_ge (newDate (startDate (bookingData s))) (newDate (endDate (bookingData s))) \<or>
    num_lt (duration s) (Fin 1) \<longrightarrow>
      fst (handleBookingSubmit user newDate today store s) = s \<and>
      inserts (snd (handleBookingSubmit user newDate today store s)) = []) \<and>
   (user = Some u \<and> equipment s = Some e \<longrightarrow>
      (id_user u = user_id e \<longrightarrow>
         snd (handleBookingSubmit user newDate today store s) =
           [Alert ''You cannot book your own equipment'']) \<and>
      (id_user u \<noteq> user_id e \<and>
       date_lt (newDate (startDate (bookingData s))) (Some today) \<longrightarrow>
         snd (handleBookingSubmit user newDate today store s) =
           [Alert ''Start date cannot be in the past'']) \<and>
      (id_user u \<noteq> user_id e \<and>
       \<not> date_lt (newDate (startDate (bookingData s))) (Some today) \<and>
       date_ge (newDate (startDate (bookingData s))) (newDate (endDate (bookingData s))) \<longrightarrow>
         snd (handleBookingSubmit user newDate today store s) =
           [Alert ''End date must be after start date'']) \<and>
      (id_user u \<noteq> user_id e \<and>
       \<not> date_lt (newDate (startDate (bookingData s))) (Some today) \<and>
       \<not> date_ge (newDate (startDate (bookingData s))) (newDate (endDate (bookingData s))) \<and>
       num_lt (duration s) (Fin 1) \<longrightarrow>
         snd (handleBookingSubmit user newDate today store s) =
           [Alert ''Minimum booking duration is 1 day''])) \<and>
   (reachable newDate s \<and>
    (startDate (bookingData s) = '''' \<or> newDate (startDate (bookingData s)) \<noteq> None) \<and>
    (endDate (bookingData s) = '''' \<or> newDate (endDate (bookingData s)) \<noteq> None) \<and>
    \<not> date_lt (newDate (startDate (bookingData s))) (newDate (endDate (bookingData s))) \<longrightarrow>
      fst (handleBookingSubmit user newDate today store s) = s \<and>
      inserts (snd (handleBookingSubmit user newDate today store s)) = [])"
proof (intro conjI impI)
  assume bad: "isOwner user s \<or>
    date_lt (newDate (startDate (bookingData s))) (Some today) \<or>
    date_ge (newDate (startDate (bookingData s))) (newDate (endDate (bookingData s))) \<or>
    num_lt (duration s) (Fin 1)"
  have "\<exists>fx. handleBookingSubmit_begin user newDate today s = Returned fx \<and> inserts fx = []"
  proof (cases "handleBookingSubmit_begin user newDate today s")
    case (Returned fx)
    then have "inserts fx = []"
      by (auto simp add: handleBookingSubmit_begin_def Let_def inserts_def
          split: option.splits if_splits)
    with Returned show ?thesis by simp
  next
    case (Awaiting s' b)
    from begin_Awaiting_valid [OF this] bad show ?thesis
      by (auto simp add: isOwner_def)
  qed
  then obtain fx where
    fx: "handleBookingSubmit_begin user newDate today s = Returned fx" "inserts fx = []"
    by blast
  from handle_Returned [OF fx(1)] fx(2)
  show "fst (handleBookingSubmit user newDate today store s) = s"
    and "inserts (snd (handleBookingSubmit user newDate today store s)) = []"
    by simp_all
next
  assume "user = Some u \<and> equipment s = Some e" and "id_user u = user_id e"
  then show "snd (handleBookingSubmit user newDate today store s) =
      [Alert ''You cannot book your own equipment'']"
    by (simp add: handle_Returned [OF begin_owner])
next
  assume "user = Some u \<and> equipment s = Some e"
    and "id_user u \<noteq> user_id e \<and>
      date_lt (newDate (startDate (bookingData s))) (Some today)"
  then show "snd (handleBookingSubmit user newDate today store s) =
      [Alert ''Start date cannot be in the past'']"
    by (simp add: handle_Returned [OF begin_past])
next
  assume "user = Some u \<and> equipment s = Some e"
    and "id_user u \<noteq> user_id e \<and>
      \<not> date_lt (newDate (startDate (bookingData s))) (Some today) \<and>
      date_ge (newDate (startDate (bookingData s))) (newDate (endDate (bookingData s)))"
  then show "snd (handleBookingSubmit user newDate today store s) =
      [Alert ''End date must be after start date'']"
    by (simp add: handle_Returned [OF begin_order])
next
  assume "user = Some u \<and> equipment s = Some e"
    and "id_user u \<noteq> user_id e \<and>
      \<not> date_lt (newDate (startDate (bookingData s))) (Some today) \<and>
      \<not> date_ge (newDate (startDate (bookingData s))) (newDate (endDate (bookingData s))) \<and>
      num_lt (duration s) (Fin 1)"
  then show "snd (handleBookingSubmit user newDate today store s) =
      [Alert ''Minimum booking duration is 1 day'']"
    by (simp add: handle_Returned [OF begin_minimum])
next
  assume h: "reachable newDate s \<and>
    (startDate (bookingData s) = '''' \<or> newDate (startDate (bookingData s)) \<noteq> None) \<and>
    (endDate (bookingData s) = '''' \<or> newDate (endDate (bookingData s)) \<noteq> None) \<and>
    \<not> date_lt (newDate (startDate (bookingData s))) (newDate (endDate (bookingData s)))"
  then have sync: "durationSynced newDate s"
    by (simp add: reachable_durationSynced)
  have "\<exists>fx. handleBookingSubmit_begin user newDate today s = Returned fx \<and> inserts fx = []"
  proof (cases "handleBookingSubmit_begin user newDate today s")
    case (Returned fx)
    then have "inserts fx = []"
      by (auto simp add: handleBookingSubmit_begin_def Let_def inserts_def
          split: option.splits if_splits)
    with Returned show ?thesis by simp
  next
    case (Awaiting s' b)
    from begin_Awaiting_valid [OF this]
    have nge: "\<not> date_ge (newDate (startDate (bookingData s)))
        (newDate (endDate (bookingData s)))"
      and nlt: "\<not> num_lt (duration s) (Fin 1)"
      by blast+
    have False
    proof (cases "startDate (bookingData s) = '''' \<or> endDate (bookingData s) = ''''")
      case True
      with sync have "duration s = Fin 0"
        by (auto simp add: durationSynced_def)
      with nlt show False by (simp add: num_lt_def)
    next
      case False
      with h obtain a b where
        "newDate (startDate (bookingData s)) = Some a"
        "newDate (endDate (bookingData s)) = Some b"
        by auto
      with h nge show False
        by (simp add: date_lt_def date_ge_def num_lt_def num_ge_def getTime_def)
    qed
    then show ?thesis ..
  qed
  then obtain fx where
    fx: "handleBookingSubmit_begin user newDate today s = Returned fx" "inserts fx = []"
    by blast
  from handle_Returned [OF fx(1)] fx(2)
  show "fst (handleBookingSubmit user newDate today store s) = s"
    and "inserts (snd (handleBookingSubmit user newDate today store s)) = []"
    by simp_all
qed

theorem submit_rejected_without_insert_witness:
  "handleBookingSubmit (Some \<lparr>id_user = ''owner-1''\<rparr>) sampleDates sampleToday (\<lambda>b. None)
     sampleState = (sampleState, [Alert ''You cannot book your own equipment'']) \<and>
   handleBookingSubmit (Some sampleUser) sampleDates (sampleToday + 86400000) (\<lambda>b. None)
     sampleState = (sampleState, [Alert ''Start date cannot be in the past'']) \<and>
   handleBookingSubmit (Some sampleUser) sampleDates sampleToday (\<lambda>b. None)
     (sampleState\<lparr>bookingData := (bookingData sampleState)\<lparr>endDate := ''2030-01-01''\<rparr>,
                  duration := Fin 0\<rparr>)
     = (sampleState\<lparr>bookingData := (bookingData sampleState)\<lparr>endDate := ''2030-01-01''\<rparr>,
                    duration := Fin 0\<rparr>,
        [Alert ''End date must be after start date'']) \<and>
   handleBookingSubmit (Some sampleUser) sampleDates sampleToday (\<lambda>b. None)
     (sampleState\<lparr>bookingData := (bookingData sampleState)\<lparr>endDate := ''''\<rparr>,
                  duration := Fin 0\<rparr>)
     = (sampleState\<lparr>bookingData := (bookingData sampleState)\<lparr>endDate := ''''\<rparr>,
                    duration := Fin 0\<rparr>,
        [Alert ''Minimum booking duration is 1 day'']) \<and>
   inserts (snd (handleBookingSubmit (Some sampleUser) sampleDates sampleToday (\<lambda>b. None)
                   sampleLoaded)) = []"
proof -
  let ?store = "\<lambda>b :: Booking. None :: string option"
  let ?s3 = "sampleState\<lparr>bookingData := (bookingData sampleState)\<lparr>endDate := ''2030-01-01''\<rparr>,
                         duration := Fin 0\<rparr>"
  let ?s4 = "sampleState\<lparr>bookingData := (bookingData sampleState)\<lparr>endDate := ''''\<rparr>,
                         duration := Fin 0\<rparr>"
  from submit_rejected_without_insert [of "Some \<lparr>id_user = ''owner-1''\<rparr>" sampleState
      sampleDates sampleToday ?store "\<lparr>id_user = ''owner-1''\<rparr>" sampleEquipment]
  have 1: "handleBookingSubmit (Some \<lparr>id_user = ''owner-1''\<rparr>) sampleDates sampleToday ?store
      sampleState = (sampleState, [Alert ''You cannot book your own equipment''])"
    by (intro prod_eqI) (simp_all add: sample_defs number_defs isOwner_def)
  from submit_rejected_without_insert [of "Some sampleUser" sampleState
      sampleDates "sampleToday + 86400000" ?store sampleUser sampleEquipment]
  have 2: "handleBookingSubmit (Some sampleUser) sampleDates (sampleToday + 86400000) ?store
      sampleState = (sampleState, [Alert ''Start date cannot be in the past''])"
    by (intro prod_eqI) (simp_all add: sample_defs number_defs isOwner_def)
  from submit_rejected_without_insert [of "Some sampleUser" ?s3
      sampleDates sampleToday ?store sampleUser sampleEquipment]
  have 3: "handleBookingSubmit (Some sampleUser) sampleDates sampleToday ?store ?s3
      = (?s3, [Alert ''End date must be after start date''])"
    by (intro prod_eqI) (simp_all add: sample_defs number_defs isOwner_def)
  from submit_rejected_without_insert [of "Some sampleUser" ?s4
      sampleDates sampleToday ?store sampleUser sampleEquipment]
  have 4: "handleBookingSubmit (Some sampleUser) sampleDates sampleToday ?store ?s4
      = (?s4, [Alert ''Minimum booking duration is 1 day''])"
    by (intro prod_eqI) (simp_all add: sample_defs number_defs isOwner_def)
  have r: "reachable sampleDates sampleLoaded \<and>
      (startDate (bookingData sampleLoaded) = '''' \<or>
       sampleDates (startDate (bookingData sampleLoaded)) \<noteq> None) \<and>
      (endDate (bookingData sampleLoaded) = '''' \<or>
       sampleDates (endDate (bookingData sampleLoaded)) \<noteq> None) \<and>
      \<not> date_lt (sampleDates (startDate (bookingData sampleLoaded)))
          (sampleDates (endDate (bookingData sampleLoaded)))"
    using sampleLoaded_reachable [of sampleDates]
    by (simp add: sampleLoaded_eq sample_defs number_defs)
  from submit_rejected_without_insert [of "Some sampleUser" sampleLoaded
      sampleDates sampleToday ?store sampleUser sampleEquipment] r
  have 5: "inserts (snd (handleBookingSubmit (Some sampleUser) sampleDates sampleToday ?store
      sampleLoaded)) = []"
    by blast
  from 1 2 3 4 5 show ?thesis by blast
qed

subsection \<open>A valid submission\<close>

text \<open>
  Claim C4. A submission that passes every check (a user who is not the owner, a start
  date not before today, a start date not on or after the end date, a duration not below
  1) sends exactly one booking to the store. Its status is pending, its rate per day is the
  equipment's rate, and its subtotal, service fee and total are computed from that rate and
  the duration: the total shown on the page plays no part, whatever it holds. Its notes are
  absent when the notes text is empty, and the text otherwise.
\<close>

theorem valid_submission_inserts_one_pending_booking:
  assumes "user = Some u" and "equipment s = Some e" and "id_user u \<noteq> user_id e"
    and "\<not> date_lt (newDate (startDate (bookingData s))) (Some today)"
    and "\<not> date_ge (newDate (startDate (bookingData s))) (newDate (endDate (bookingData s)))"
    and "\<not> num_lt (duration s) (Fin 1)"
  shows "\<exists>b. inserts (snd (handleBookingSubmit user newDate today store s)) = [b] \<and>
           booking_status b = ''pending'' \<and>
           rate_per_day b = rate e \<and>
           days b = duration s \<and>
           subtotal b = num_mult (duration s) (rate e) \<and>
           service_fee b = Math_round (num_mult (subtotal b) (Fin (binary64 (5 / 100)))) \<and>
           total_amount b = num_add (subtotal b) (service_fee b) \<and>
           booking_notes b =
             (if notesText (bookingData s) = '''' then None
              else Some (notesText (bookingData s))) \<and>
           equipment_id b = id_equipment e \<and>
           booking_user_id b = id_user u \<and>
           start_date b = startDate (bookingData s) \<and>
           end_date b = endDate (bookingData s) \<and>
           (\<forall>t. inserts (snd (handleBookingSubmit user newDate today store
                                  (s\<lparr>totalAmount := t\<rparr>))) = [b])"
proof -
  let ?b = "\<lparr>equipment_id = id_equipment e,
        booking_user_id = id_user u,
        start_date = startDate (bookingData s),
        end_date = endDate (bookingData s),
        days = duration s,
        rate_per_day = rate e,
        subtotal = num_mult (duration s) (rate e),
        service_fee = Math_round (num_mult (num_mult (duration s) (rate e)) (Fin (binary64 (5 / 100)))),
        total_amount =
          num_add (num_mult (duration s) (rate e))
            (Math_round (num_mult (num_mult (duration s) (rate e)) (Fin (binary64 (5 / 100))))),
        booking_status = ''pending'',
        booking_notes =
          (if notesText (bookingData s) \<noteq> '''' then Some (notesText (bookingData s))
           else None)\<rparr>"
  have one: "inserts (snd (handleBookingSubmit user newDate today store (s\<lparr>totalAmount := t\<rparr>)))
      = [?b]" for t
  proof -
    have "handleBookingSubmit_begin user newDate today (s\<lparr>totalAmount := t\<rparr>) =
        Awaiting (s\<lparr>totalAmount := t, submitting := True\<rparr>) ?b"
      using begin_valid [of user u "s\<lparr>totalAmount := t\<rparr>" e newDate today] assms by simp
    from handle_Awaiting [OF this, of store] show ?thesis
      using inserts_resume [of "store ?b" "s\<lparr>totalAmount := t, submitting := True\<rparr>"]
      by (simp add: inserts_def)
  qed
  from one [of "totalAmount s"]
  have "inserts (snd (handleBookingSubmit user newDate today store s)) = [?b]"
    by simp
  with one show ?thesis
    by (intro exI [of _ ?b]) simp
qed

theorem valid_submission_inserts_one_pending_booking_witness:
  "inserts (snd (handleBookingSubmit (Some sampleUser) sampleDates sampleToday (\<lambda>b. None)
                   (sampleState\<lparr>totalAmount := Fin 0\<rparr>))) =
     [\<lparr>equipment_id = ''eq-1'', booking_user_id = ''renter-1'',
       start_date = ''2030-01-01'', end_date = ''2030-01-04'', days = Fin 3,
       rate_per_day = Fin 100, subtotal = Fin 300, service_fee = Fin 15,
       total_amount = Fin 315, booking_status = ''pending'', booking_notes = None\<rparr>]"
proof -
  have "id_user sampleUser \<noteq> user_id sampleEquipment"
    and "\<not> date_lt (sampleDates (startDate (bookingData sampleState))) (Some sampleToday)"
    and "\<not> date_ge (sampleDates (startDate (bookingData sampleState)))
             (sampleDates (endDate (bookingData sampleState)))"
    and "\<not> num_lt (duration sampleState) (Fin 1)"
    and "equipment sampleState = Some sampleEquipment"
    by (simp_all add: sample_defs number_defs)
  from valid_submission_inserts_one_pending_booking [OF refl this(5) this(1-4),
      of "\<lambda>b. None"]
  obtain b where b: "booking_status b = ''pending''" "rate_per_day b = rate sampleEquipment"
    "days b = duration sampleState"
    "subtotal b = num_mult (duration sampleState) (rate sampleEquipment)"
    "service_fee b = Math_round (num_mult (subtotal b) (Fin (binary64 (5 / 100))))"
    "total_amount b = num_add (subtotal b) (service_fee b)"
    "booking_notes b =
       (if notesText (bookingData sampleState) = '''' then None
        else Some (notesText (bookingData sampleState)))"
    "equipment_id b = id_equipment sampleEquipment"
    "booking_user_id b = id_user sampleUser"
    "start_date b = startDate (bookingData sampleState)"
    "end_date b = endDate (bookingData sampleState)"
    "\<And>t. inserts (snd (handleBookingSubmit (Some sampleUser) sampleDates sampleToday
                           (\<lambda>b. None) (sampleState\<lparr>totalAmount := t\<rparr>))) = [b]"
    by blast
  have "b = \<lparr>equipment_id = ''eq-1'', booking_user_id = ''renter-1'',
       start_date = ''2030-01-01'', end_date = ''2030-01-04'', days = Fin 3,
       rate_per_day = Fin 100, subtotal = Fin 300, service_fee = Fin 15,
       total_amount = Fin 315, booking_status = ''pending'', booking_notes = None\<rparr>"
    using b(1-11)
    by (cases b) (simp add: sample_defs number_defs sample_prices)
  with b(12) [of "Fin 0"] show ?thesis by simp
qed

subsection \<open>The submitting flag\<close>

text \<open>
  Claim C8. While the flag is set the modal's Cancel and submit buttons are disabled and
  the submit button reads Submitting...; the handler sets the flag before it calls the
  store, so this is what the page shows while the store call is outstanding. When the
  handler has run to its end the flag is false: after the store's answer, be it a success
  or an error, the flag is cleared, and a rejected submission leaves the state (and the
  flag, false when the handler started) as it was. The flag is false whenever the submit
  button is enabled, so every submission made through the button ends with the flag false.
\<close>

theorem submitting_flag_disables_controls_and_is_cleared:
  "(submitting s \<longrightarrow>
      cancelDisabled (renderModal e s) \<and> submitDisabled (renderModal e s) \<and>
      submitLabel (renderModal e s) = ''Submitting...'') \<and>
   (handleBookingSubmit_begin user newDate today s = Awaiting s' b \<longrightarrow>
      submitting s' \<and>
      (showBookingModal s' \<and> \<not> loading s' \<longrightarrow>
         (\<exists>v m. render user s' = Detail v \<and> modal v = Some m \<and>
                cancelDisabled m \<and> submitDisabled m \<and> submitLabel m = ''Submitting...'')) \<and>
      \<not> submitting (fst (handleBookingSubmit_resume None s')) \<and>
      \<not> submitting (fst (handleBookingSubmit_resume (Some msg) s')) \<and>
      \<not> submitting (fst (handleBookingSubmit user newDate today store s))) \<and>
   (handleBookingSubmit_begin user newDate today s = Returned fx \<longrightarrow>
      fst (handleBookingSubmit user newDate today store s) = s) \<and>
   (\<not> submitting s \<longrightarrow> \<not> submitting (fst (handleBookingSubmit user newDate today store s))) \<and>
   (\<not> submitDisabled (renderModal e s) \<longrightarrow>
      \<not> submitting (fst (handleBookingSubmit user newDate today store s)))"
proof (intro conjI impI)
  assume "submitting s"
  then show "cancelDisabled (renderModal e s)" and "submitDisabled (renderModal e s)"
    and "submitLabel (renderModal e s) = ''Submitting...''"
    by (simp_all add: renderModal_def)
next
  assume aw: "handleBookingSubmit_begin user newDate today s = Awaiting s' b"
  from begin_Awaiting_valid [OF aw] obtain u e' where
    s': "s' = s\<lparr>submitting := True\<rparr>" and e': "equipment s = Some e'"
    by blast
  from s' show "submitting s'" by simp
  show "\<not> submitting (fst (handleBookingSubmit_resume None s'))"
    and "\<not> submitting (fst (handleBookingSubmit_resume (Some msg) s'))"
    by (rule submitting_resume)+
  from handle_Awaiting [OF aw, of store]
  show "\<not> submitting (fst (handleBookingSubmit user newDate today store s))"
    by (simp add: submitting_resume)
  assume "showBookingModal s' \<and> \<not> loading s'"
  with s' e'
  show "\<exists>v m. render user s' = Detail v \<and> modal v = Some m \<and>
               cancelDisabled m \<and> submitDisabled m \<and> submitLabel m = ''Submitting...''"
    by (simp add: render_def renderModal_def)
next
  assume "handleBookingSubmit_begin user newDate today s = Returned fx"
  from handle_Returned [OF this]
  show "fst (handleBookingSubmit user newDate today store s) = s" by simp
next
  have cleared: "\<not> submitting (fst (handleBookingSubmit user newDate today store s))"
    if ns: "\<not> submitting s"
  proof (cases "handleBookingSubmit_begin user newDate today s")
    case (Returned fx)
    from handle_Returned [OF this] ns show ?thesis by simp
  next
    case (Awaiting s' b)
    from handle_Awaiting [OF this, of store] show ?thesis
      by (simp add: submitting_resume)
  qed
  {
    assume "\<not> submitting s"
    then show "\<not> submitting (fst (handleBookingSubmit user newDate today store s))"
      by (rule cleared)
  }
  {
    assume "\<not> submitDisabled (renderModal e s)"
    then have "\<not> submitting s"
      by (simp add: renderModal_def)
    then show "\<not> submitting (fst (handleBookingSubmit user newDate today store s))"
      by (rule cleared)
  }
qed

theorem submitting_flag_disables_controls_and_is_cleared_witness:
  "(\<exists>s' b. handleBookingSubmit_begin (Some sampleUser) sampleDates sampleToday sampleState
            = Awaiting s' b \<and>
          submitting s' \<and>
          (\<exists>v m. render (Some sampleUser) s' = Detail v \<and> modal v = Some m \<and>
                 cancelDisabled m \<and> submitDisabled m \<and> submitLabel m = ''Submitting...'') \<and>
          \<not> submitting (fst (handleBookingSubmit_resume None s')) \<and>
          \<not> submitting (fst (handleBookingSubmit_resume (Some ''timeout'') s'))) \<and>
   \<not> submitting (fst (handleBookingSubmit (Some sampleUser) sampleDates sampleToday
                        (\<lambda>b. Some ''timeout'') sampleState)) \<and>
   \<not> submitting (fst (handleBookingSubmit (Some sampleUser) sampleDates
                        (sampleToday + 86400000) (\<lambda>b. None) sampleState))"
proof -
  obtain s' b where
    sb: "handleBookingSubmit_begin (Some sampleUser) sampleDates sampleToday sampleState
           = Awaiting s' b"
    using sample_begin by blast
  with sample_begin have s': "s' = sampleState\<lparr>submitting := True\<rparr>"
    by simp
  have m: "showBookingModal s' \<and> \<not> loading s'"
    unfolding s' by (simp add: sampleState_def)
  have n: "\<not> submitting sampleState"
    by (simp add: sampleState_def)
  note a = submitting_flag_disables_controls_and_is_cleared [of sampleState sampleEquipment
      "Some sampleUser" sampleDates sampleToday s' b "''timeout''" "\<lambda>b. Some ''timeout''"]
  note c = submitting_flag_disables_controls_and_is_cleared [of sampleState sampleEquipment
      "Some sampleUser" sampleDates "sampleToday + 86400000" s' b "''timeout''" "\<lambda>b. None"]
  from a have a2: "handleBookingSubmit_begin (Some sampleUser) sampleDates sampleToday
        sampleState = Awaiting s' b \<longrightarrow>
      submitting s' \<and>
      (showBookingModal s' \<and> \<not> loading s' \<longrightarrow>
         (\<exists>v m. render (Some sampleUser) s' = Detail v \<and> modal v = Some m \<and>
                cancelDisabled m \<and> submitDisabled m \<and> submitLabel m = ''Submitting...'')) \<and>
      \<not> submitting (fst (handleBookingSubmit_resume None s')) \<and>
      \<not> submitting (fst (handleBookingSubmit_resume (Some ''timeout'') s')) \<and>
      \<not> submitting (fst (handleBookingSubmit (Some sampleUser) sampleDates sampleToday
                           (\<lambda>b. Some ''timeout'') sampleState))"
    by (rule conjunct1 [OF conjunct2])
  from a2 sb m have 1: "submitting s'"
    and 2: "\<exists>v m. render (Some sampleUser) s' = Detail v \<and> modal v = Some m \<and>
                cancelDisabled m \<and> submitDisabled m \<and> submitLabel m = ''Submitting...''"
    and 3: "\<not> submitting (fst (handleBookingSubmit_resume None s'))"
    and 4: "\<not> submitting (fst (handleBookingSubmit_resume (Some ''timeout'') s'))"
    and 5: "\<not> submitting (fst (handleBookingSubmit (Some sampleUser) sampleDates sampleToday
                           (\<lambda>b. Some ''timeout'') sampleState))"
    by simp_all
  from c n have 6: "\<not> submitting (fst (handleBookingSubmit (Some sampleUser) sampleDates
                        (sampleToday + 86400000) (\<lambda>b. None) sampleState))"
    by (simp only: simp_thms)
  from sb 1 2 3 4 5 6 show ?thesis
    by (intro conjI exI [of _ s'] exI [of _ b])
qed

subsection \<open>The minimum-duration check\<close>

lemma calculateDuration_at_least_one:
  assumes "newDate start = Some a" and "newDate end' = Some b" and "a < b"
  shows "\<exists>n :: int. 1 \<le> n \<and> calculateDuration newDate start end' = Fin (of_int n)"
proof -
  have "0 < of_int \<bar>b - a\<bar> / (86400000 :: rat)"
    using assms(3) by simp
  then have "1 \<le> \<lceil>of_int \<bar>b - a\<bar> / (86400000 :: rat)\<rceil>"
    by (simp add: less_ceiling_iff add1_zle_eq [symmetric])
  with assms(1,2) show ?thesis
    by (simp add: calculateDuration_cases)
qed

lemma begin_minimum_only:
  assumes "handleBookingSubmit_begin user newDate today s =
      Returned [Alert ''Minimum booking duration is 1 day'']"
  shows "\<not> date_ge (newDate (startDate (bookingData s))) (newDate (endDate (bookingData s))) \<and>
         num_lt (duration s) (Fin 1)"
  using assms
  by (auto simp add: handleBookingSubmit_begin_def Let_def split: option.splits if_splits)

text \<open>
  Claim C9. For two dates that parse, the start strictly before the end, calculateDuration
  returns an integer that is at least 1. So in a state of the page, where the duration
  follows the date fields, the handler's minimum-duration check never fails once the
  check that the end is after the start has passed on two dates that parse: when it does
  show its message, a date field is empty or a date string does not parse.
\<close>

theorem minimum_duration_check_needs_missing_date:
  "(newDate start = Some a \<and> newDate end' = Some b \<and> a < b \<longrightarrow>
      (\<exists>n :: int. 1 \<le> n \<and> calculateDuration newDate start end' = Fin (of_int n)) \<and>
      \<not> num_lt (calculateDuration newDate start end') (Fin 1)) \<and>
   (reachable newDate s \<and>
    handleBookingSubmit_begin user newDate today s =
      Returned [Alert ''Minimum booking duration is 1 day''] \<longrightarrow>
      startDate (bookingData s) = '''' \<or> endDate (bookingData s) = '''' \<or>
      newDate (startDate (bookingData s)) = None \<or>
      newDate (endDate (bookingData s)) = None) \<and>
   (reachable newDate s \<and>
    newDate (startDate (bookingData s)) = Some a \<and>
    newDate (endDate (bookingData s)) = Some b \<and>
    startDate (bookingData s) \<noteq> '''' \<and> endDate (bookingData s) \<noteq> '''' \<longrightarrow>
      handleBookingSubmit_begin user newDate today s \<noteq>
        Returned [Alert ''Minimum booking duration is 1 day''])"
proof (intro conjI impI)
  assume h: "newDate start = Some a \<and> newDate end' = Some b \<and> a < b"
  then show ex: "\<exists>n :: int. 1 \<le> n \<and> calculateDuration newDate start end' = Fin (of_int n)"
    using calculateDuration_at_least_one by blast
  then show "\<not> num_lt (calculateDuration newDate start end') (Fin 1)"
    by (auto simp add: num_lt_def)
next
  have key: "handleBookingSubmit_begin user newDate today s \<noteq>
      Returned [Alert ''Minimum booking duration is 1 day'']"
    if r: "reachable newDate s"
      and a: "newDate (startDate (bookingData s)) = Some a'"
      and b: "newDate (endDate (bookingData s)) = Some b'"
      and ne: "startDate (bookingData s) \<noteq> ''''" "endDate (bookingData s) \<noteq> ''''"
    for a' b'
  proof
    assume "handleBookingSubmit_begin user newDate today s =
      Returned [Alert ''Minimum booking duration is 1 day'']"
    from begin_minimum_only [OF this] a b
    have lt: "a' < b'" and small: "num_lt (duration s) (Fin 1)"
      by (simp_all add: date_ge_def num_ge_def getTime_def)
    from reachable_durationSynced [OF r] ne
    have "duration s =
        calculateDuration newDate (startDate (bookingData s)) (endDate (bookingData s))"
      by (simp add: durationSynced_def)
    with calculateDuration_at_least_one [OF a b lt] small show False
      by (auto simp add: num_lt_def)
  qed
  {
    assume "reachable newDate s \<and>
      handleBookingSubmit_begin user newDate today s =
        Returned [Alert ''Minimum booking duration is 1 day'']"
    with key show "startDate (bookingData s) = '''' \<or> endDate (bookingData s) = '''' \<or>
        newDate (startDate (bookingData s)) = None \<or>
        newDate (endDate (bookingData s)) = None"
      by (cases "newDate (startDate (bookingData s))";
          cases "newDate (endDate (bookingData s))") auto
  }
  {
    assume "reachable newDate s \<and>
      newDate (startDate (bookingData s)) = Some a \<and>
      newDate (endDate (bookingData s)) = Some b \<and>
      startDate (bookingData s) \<noteq> '''' \<and> endDate (bookingData s) \<noteq> ''''"
    with key show "handleBookingSubmit_begin user newDate today s \<noteq>
        Returned [Alert ''Minimum booking duration is 1 day'']"
      by blast
  }
qed

theorem minimum_duration_check_needs_missing_date_witness:
  "(\<exists>n :: int. 1 \<le> n \<and>
      calculateDuration sampleDates ''2030-01-01'' ''2030-01-04'' = Fin (of_int n)) \<and>
   reachable sampleDates sampleLoaded \<and>
   handleBookingSubmit_begin (Some sampleUser) sampleDates sampleToday sampleLoaded =
     Returned [Alert ''Minimum booking duration is 1 day''] \<and>
   (startDate (bookingData sampleLoaded) = '''' \<or> endDate (bookingData sampleLoaded) = '''' \<or>
    sampleDates (startDate (bookingData sampleLoaded)) = None \<or>
    sampleDates (endDate (bookingData sampleLoaded)) = None) \<and>
   reachable sampleDates
     (handleDateChange sampleDates EndDateField ''2030-01-04''
        (handleDateChange sampleDates StartDateField ''2030-01-01'' sampleLoaded)) \<and>
   handleBookingSubmit_begin (Some sampleUser) sampleDates sampleToday
     (handleDateChange sampleDates EndDateField ''2030-01-04''
        (handleDateChange sampleDates StartDateField ''2030-01-01'' sampleLoaded)) \<noteq>
     Returned [Alert ''Minimum booking duration is 1 day'']"
proof -
  let ?dated = "handleDateChange sampleDates EndDateField ''2030-01-04''
        (handleDateChange sampleDates StartDateField ''2030-01-01'' sampleLoaded)"
  have r1: "reachable sampleDates sampleLoaded"
    by (rule sampleLoaded_reachable)
  have r2: "reachable sampleDates ?dated"
    by (intro r_date r1)
  have m: "handleBookingSubmit_begin (Some sampleUser) sampleDates sampleToday sampleLoaded =
      Returned [Alert ''Minimum booking duration is 1 day'']"
    by (simp add: sampleLoaded_eq handleBookingSubmit_begin_def sample_defs number_defs
        Let_def)
  have bd: "bookingData ?dated =
      \<lparr>startDate = ''2030-01-01'', endDate = ''2030-01-04'', notesText = ''''\<rparr>"
    by (simp add: handleDateChange_bookingData sampleLoaded_eq)
  have p: "sampleDates ''2030-01-01'' = Some 1893456000000 \<and>
      sampleDates ''2030-01-04'' = Some 1893715200000 \<and>
      (1893456000000 :: int) < 1893715200000"
    by (simp add: sampleDates_def)
  note t1 = minimum_duration_check_needs_missing_date [of sampleDates "''2030-01-01''"
      1893456000000 "''2030-01-04''" 1893715200000 sampleLoaded "Some sampleUser" sampleToday]
  note t2 = minimum_duration_check_needs_missing_date [of sampleDates "''2030-01-01''"
      1893456000000 "''2030-01-04''" 1893715200000 ?dated "Some sampleUser" sampleToday]
  from t1 p have 1: "\<exists>n :: int. 1 \<le> n \<and>
      calculateDuration sampleDates ''2030-01-01'' ''2030-01-04'' = Fin (of_int n)"
    by simp
  from t1 r1 m have 2: "startDate (bookingData sampleLoaded) = '''' \<or>
      endDate (bookingData sampleLoaded) = '''' \<or>
      sampleDates (startDate (bookingData sampleLoaded)) = None \<or>
      sampleDates (endDate (bookingData sampleLoaded)) = None"
    by simp
  have q: "sampleDates (startDate (bookingData ?dated)) = Some 1893456000000 \<and>
      sampleDates (endDate (bookingData ?dated)) = Some 1893715200000 \<and>
      startDate (bookingData ?dated) \<noteq> '''' \<and> endDate (bookingData ?dated) \<noteq> ''''"
    unfolding bd by (simp add: sampleDates_def)
  from t2 r2 q have 3: "handleBookingSubmit_begin (Some sampleUser) sampleDates sampleToday
      ?dated \<noteq> Returned [Alert ''Minimum booking duration is 1 day'']"
    by simp
  from 1 r1 m 2 r2 3 show ?thesis by (intro conjI)
qed

subsection \<open>Availability\<close>

lemma begin_status_irrelevant:
  assumes "equipment s = Some e"
  shows "handleBookingSubmit_begin user newDate today (s\<lparr>equipment := Some (e\<lparr>status := st\<rparr>)\<rparr>) =
     (case handleBookingSubmit_begin user newDate today s of
        Returned fx \<Rightarrow> Returned fx
      | Awaiting s' b \<Rightarrow> Awaiting (s'\<lparr>equipment := Some (e\<lparr>status := st\<rparr>)\<rparr>) b)"
  using assms
  by (cases user) (simp_all add: handleBookingSubmit_begin_def Let_def)

lemma resume_effects_state_free:
  "snd (handleBookingSubmit_resume err s) = snd (handleBookingSubmit_resume err s')"
  by (simp add: handleBookingSubmit_resume_def split: option.splits)

text \<open>
  Claim C10. For a viewer who is not the owner, the page shows the Book Now button,
  disabled exactly when the equipment's status is not the string available; a click that
  opens the booking modal therefore happens on available equipment, seen by a viewer who is
  not its owner. The submit handler does not look at the status: with any other status in
  place of the equipment's, it does the same things, the insert included.
\<close>

theorem book_now_disabled_unless_available:
  "(\<not> isOwner user s \<and> \<not> loading s \<and> equipment s = Some e \<longrightarrow>
      (\<exists>v. render user s = Detail v \<and>
           bookControl v = BookNow (status e \<noteq> ''available''))) \<and>
   (showBookingModal (clickBookNow user s) \<and> \<not> showBookingModal s \<longrightarrow>
      (\<exists>e'. equipment s = Some e' \<and> status e' = ''available'') \<and> \<not> isOwner user s) \<and>
   (equipment s = Some e \<longrightarrow>
      snd (handleBookingSubmit user newDate today store
             (s\<lparr>equipment := Some (e\<lparr>status := st\<rparr>)\<rparr>)) =
      snd (handleBookingSubmit user newDate today store s))"
proof (intro conjI impI)
  assume "\<not> isOwner user s \<and> \<not> loading s \<and> equipment s = Some e"
  then show "\<exists>v. render user s = Detail v \<and>
      bookControl v = BookNow (status e \<noteq> ''available'')"
    by (simp add: render_def)
next
  assume a: "showBookingModal (clickBookNow user s) \<and> \<not> showBookingModal s"
  then show "\<exists>e'. equipment s = Some e' \<and> status e' = ''available''"
    by (auto simp add: clickBookNow_def render_def
        split: if_splits option.splits View.splits BookControl.splits bool.splits)
  from a show "\<not> isOwner user s"
    by (auto simp add: clickBookNow_def render_def
        split: if_splits option.splits View.splits BookControl.splits bool.splits)
next
  assume e: "equipment s = Some e"
  show "snd (handleBookingSubmit user newDate today store
             (s\<lparr>equipment := Some (e\<lparr>status := st\<rparr>)\<rparr>)) =
      snd (handleBookingSubmit user newDate today store s)"
  proof (cases "handleBookingSubmit_begin user newDate today s")
    case (Returned fx)
    with begin_status_irrelevant [OF e, of user newDate today st]
    show ?thesis by (simp add: handleBookingSubmit_def)
  next
    case (Awaiting s' b)
    with begin_status_irrelevant [OF e, of user newDate today st]
    have "handleBookingSubmit_begin user newDate today
        (s\<lparr>equipment := Some (e\<lparr>status := st\<rparr>)\<rparr>) =
        Awaiting (s'\<lparr>equipment := Some (e\<lparr>status := st\<rparr>)\<rparr>) b"
      by simp
    from handle_Awaiting [OF this, of store] handle_Awaiting [OF Awaiting, of store]
      resume_effects_state_free [of "store b" "s'\<lparr>equipment := Some (e\<lparr>status := st\<rparr>)\<rparr>" s']
    show ?thesis by simp
  qed
qed

theorem book_now_disabled_unless_available_witness:
  "(\<exists>v. render (Some sampleUser) (sampleLoaded\<lparr>equipment :=
            Some (sampleEquipment\<lparr>status := ''rented''\<rparr>)\<rparr>) = Detail v \<and>
        bookControl v = BookNow True) \<and>
   showBookingModal (clickBookNow (Some sampleUser) sampleLoaded) \<and>
   (\<exists>e'. equipment sampleLoaded = Some e' \<and> status e' = ''available'') \<and>
   inserts (snd (handleBookingSubmit (Some sampleUser) sampleDates sampleToday (\<lambda>b. None)
             (sampleState\<lparr>equipment := Some (sampleEquipment\<lparr>status := ''rented''\<rparr>)\<rparr>))) =
     [\<lparr>equipment_id = ''eq-1'', booking_user_id = ''renter-1'',
       start_date = ''2030-01-01'', end_date = ''2030-01-04'', days = Fin 3,
       rate_per_day = Fin 100, subtotal = Fin 300, service_fee = Fin 15,
       total_amount = Fin 315, booking_status = ''pending'', booking_notes = None\<rparr>]"
proof -
  let ?rented = "sampleEquipment\<lparr>status := ''rented''\<rparr>"
  let ?s1 = "sampleLoaded\<lparr>equipment := Some ?rented\<rparr>"
  have h1: "\<not> isOwner (Some sampleUser) ?s1 \<and> \<not> loading ?s1 \<and> equipment ?s1 = Some ?rented"
    by (simp add: isOwner_def sampleLoaded_eq sample_defs)
  from book_now_disabled_unless_available [of "Some sampleUser" ?s1 ?rented] h1
  have 1: "\<exists>v. render (Some sampleUser) ?s1 = Detail v \<and> bookControl v = BookNow True"
    by (simp add: sampleEquipment_def)
  have 2: "showBookingModal (clickBookNow (Some sampleUser) sampleLoaded)"
    and n2: "\<not> showBookingModal sampleLoaded"
    by (simp_all add: clickBookNow_def render_def isOwner_def sampleLoaded_eq sample_defs)
  from book_now_disabled_unless_available [of "Some sampleUser" sampleLoaded] 2 n2
  have 3: "\<exists>e'. equipment sampleLoaded = Some e' \<and> status e' = ''available''"
    by simp
  have e: "equipment sampleState = Some sampleEquipment"
    by (simp add: sampleState_def)
  from book_now_disabled_unless_available [of "Some sampleUser" sampleState sampleEquipment
      sampleDates sampleToday "\<lambda>b. None" "''rented''"] e
  have "snd (handleBookingSubmit (Some sampleUser) sampleDates sampleToday (\<lambda>b. None)
             (sampleState\<lparr>equipment := Some ?rented\<rparr>)) =
      snd (handleBookingSubmit (Some sampleUser) sampleDates sampleToday (\<lambda>b. None)
             sampleState)"
    by simp
  then have 4: "inserts (snd (handleBookingSubmit (Some sampleUser) sampleDates sampleToday
        (\<lambda>b. None) (sampleState\<lparr>equipment := Some ?rented\<rparr>))) =
     [\<lparr>equipment_id = ''eq-1'', booking_user_id = ''renter-1'',
       start_date = ''2030-01-01'', end_date = ''2030-01-04'', days = Fin 3,
       rate_per_day = Fin 100, subtotal = Fin 300, service_fee = Fin 15,
       total_amount = Fin 315, booking_status = ''pending'', booking_notes = None\<rparr>]"
    by (simp add: handleBookingSubmit_def sample_begin handleBookingSubmit_resume_def
        inserts_def)
  from 1 2 3 4 show ?thesis by (intro conjI)
qed

subsection \<open>Images\<close>










subsection \<open>No duration, no price\<close>

text \<open>
  Claim C6. When the duration is zero or not a number, or when there is no equipment (and
  so no rate) or its rate is zero or not a number, the totals effect sets the total to
  zero. With a duration that is zero or not a number the modal shows no price breakdown,
  and with no equipment the page shows no modal at all. Choosing as one date a string that
  parses (or the empty string) when the other date field holds the same string sets the
  duration to 0, and then the submit button is disabled and no breakdown is shown.
\<close>

theorem zero_duration_resets_total_and_disables_submit:
  "(duration s = Fin 0 \<or> duration s = NaN \<or> equipment s = None \<or>
    (\<exists>e'. equipment s = Some e' \<and> (rate e' = Fin 0 \<or> rate e' = NaN)) \<longrightarrow>
      totalAmount (recomputeTotals s) = Fin 0) \<and>
   (duration s = Fin 0 \<or> duration s = NaN \<longrightarrow> priceBreakdown (renderModal e s) = None) \<and>
   (equipment s = None \<longrightarrow> (\<forall>v. render user s \<noteq> Detail v)) \<and>
   ((newDate v \<noteq> None \<or> v = '''') \<and>
    (field = EndDateField \<and> startDate (bookingData s) = v \<or>
     field = StartDateField \<and> endDate (bookingData s) = v) \<longrightarrow>
      duration (handleDateChange newDate field v s) = Fin 0 \<and>
      totalAmount (recomputeTotals (handleDateChange newDate field v s)) = Fin 0 \<and>
      submitDisabled (renderModal e (handleDateChange newDate field v s)) \<and>
      priceBreakdown (renderModal e (handleDateChange newDate field v s)) = None)"
proof (intro conjI impI)
  assume "duration s = Fin 0 \<or> duration s = NaN \<or> equipment s = None \<or>
    (\<exists>e'. equipment s = Some e' \<and> (rate e' = Fin 0 \<or> rate e' = NaN))"
  then show "totalAmount (recomputeTotals s) = Fin 0"
    by (auto simp add: recomputeTotals_def num_gt_def truthy_def Let_def split: option.splits)
next
  assume "duration s = Fin 0 \<or> duration s = NaN"
  then show "priceBreakdown (renderModal e s) = None"
    by (auto simp add: renderModal_def num_gt_def)
next
  assume "equipment s = None"
  then show "\<forall>v. render user s \<noteq> Detail v"
    by (simp add: render_def)
next
  assume h: "(newDate v \<noteq> None \<or> v = '''') \<and>
    (field = EndDateField \<and> startDate (bookingData s) = v \<or>
     field = StartDateField \<and> endDate (bookingData s) = v)"
  have same: "calculateDuration newDate v v = Fin 0" if "newDate v \<noteq> None"
    using that by (auto simp add: calculateDuration_cases)
  from h same show d: "duration (handleDateChange newDate field v s) = Fin 0"
    by (auto simp add: handleDateChange_def Let_def)
  then show "totalAmount (recomputeTotals (handleDateChange newDate field v s)) = Fin 0"
    by (simp add: recomputeTotals_def num_gt_def split: option.splits)
  from d show "submitDisabled (renderModal e (handleDateChange newDate field v s))"
    by (simp add: renderModal_def num_lt_def)
  from d show "priceBreakdown (renderModal e (handleDateChange newDate field v s)) = None"
    by (simp add: renderModal_def num_gt_def)
qed

theorem zero_duration_resets_total_and_disables_submit_witness:
  "totalAmount (recomputeTotals (sampleState\<lparr>duration := Fin 0\<rparr>)) = Fin 0 \<and>
   totalAmount (recomputeTotals (sampleState\<lparr>equipment := None\<rparr>)) = Fin 0 \<and>
   priceBreakdown (renderModal sampleEquipment (sampleState\<lparr>duration := Fin 0\<rparr>)) = None \<and>
   duration (handleDateChange sampleDates EndDateField ''2030-01-01'' sampleState) = Fin 0 \<and>
   submitDisabled (renderModal sampleEquipment
     (handleDateChange sampleDates EndDateField ''2030-01-01'' sampleState)) \<and>
   priceBreakdown (renderModal sampleEquipment
     (handleDateChange sampleDates EndDateField ''2030-01-01'' sampleState)) = None"
proof -
  note a = zero_duration_resets_total_and_disables_submit
    [of "sampleState\<lparr>duration := Fin 0\<rparr>" sampleEquipment "Some sampleUser" sampleDates
      "''2030-01-01''" EndDateField]
  note b = zero_duration_resets_total_and_disables_submit
    [of "sampleState\<lparr>equipment := None\<rparr>" sampleEquipment "Some sampleUser" sampleDates
      "''2030-01-01''" EndDateField]
  note c = zero_duration_resets_total_and_disables_submit
    [of sampleState sampleEquipment "Some sampleUser" sampleDates "''2030-01-01''" EndDateField]
  have d0: "duration (sampleState\<lparr>duration := Fin 0\<rparr>) = Fin 0"
    and e0: "equipment (sampleState\<lparr>equipment := None\<rparr>) = None"
    by simp_all
  have p: "(sampleDates ''2030-01-01'' \<noteq> None \<or> ''2030-01-01'' = '''') \<and>
      (EndDateField = EndDateField \<and> startDate (bookingData sampleState) = ''2030-01-01'' \<or>
       EndDateField = StartDateField \<and> endDate (bookingData sampleState) = ''2030-01-01'')"
    by (simp add: sampleDates_def sampleState_def)
  from a d0 have 1: "totalAmount (recomputeTotals (sampleState\<lparr>duration := Fin 0\<rparr>)) = Fin 0"
    and 3: "priceBreakdown (renderModal sampleEquipment (sampleState\<lparr>duration := Fin 0\<rparr>)) = None"
    by blast+
  from b e0 have 2: "totalAmount (recomputeTotals (sampleState\<lparr>equipment := None\<rparr>)) = Fin 0"
    by blast
  from c p have 4:
    "duration (handleDateChange sampleDates EndDateField ''2030-01-01'' sampleState) = Fin 0"
    and 5: "submitDisabled (renderModal sampleEquipment
     (handleDateChange sampleDates EndDateField ''2030-01-01'' sampleState))"
    and 6: "priceBreakdown (renderModal sampleEquipment
     (handleDateChange sampleDates EndDateField ''2030-01-01'' sampleState)) = None"
    by blast+
  from 1 2 3 4 5 6 show ?thesis by (intro conjI)
qed

subsection \<open>A failed fetch\<close>

text \<open>
  Claim C7 says that every failing fetch leaves the equipment state empty and the page on
  its not-found view. A fetch that fails after an earlier one has succeeded (the fetch
  runs again whenever the id of the route changes) leaves the earlier equipment in place,
  and the page goes on showing the detail view.
\<close>

theorem failed_refetch_keeps_equipment_counterexample:
  "reachable sampleDates sampleLoaded \<and>
   snd (fetchEquipmentDetails sampleSort None (Some ''network error'') sampleLoaded) =
     [ConsoleError ''Error fetching equipment:'' ''network error''] \<and>
   equipment (fst (fetchEquipmentDetails sampleSort None (Some ''network error'') sampleLoaded)) =
     equipment sampleLoaded \<and>
   equipment sampleLoaded \<noteq> None \<and>
   \<not> loading (fst (fetchEquipmentDetails sampleSort None (Some ''network error'') sampleLoaded)) \<and>
   render (Some sampleUser) (fst (fetchEquipmentDetails sampleSort None (Some ''network error'') sampleLoaded))
     \<noteq> NotFoundView ''Equipment Not Found'' ''/equipment'' \<and>
   (\<exists>v. render (Some sampleUser)
          (fst (fetchEquipmentDetails sampleSort None (Some ''network error'') sampleLoaded)) = Detail v)"
proof -
  have "reachable sampleDates sampleLoaded"
    by (rule sampleLoaded_reachable)
  then show ?thesis
    by (simp add: sampleLoaded_eq fetchEquipmentDetails_def
        fetchEquipmentDetails_begin_def fetchEquipmentDetails_resume_def render_def)
qed

text \<open>
  Claim C7, amended. A fetch fails when the store's answer carries an error or no record.
  It then leaves the equipment state as it was. On a page that has loaded no equipment
  before, the state stays empty, and once loading is over the page shows the not-found
  view with its link to the equipment list. An error in the answer is logged to the
  console. While the fetch is outstanding the page shows the loading view. The page shows
  the not-found view exactly when it is not loading and has no equipment, and the detail
  view exactly when it is not loading and has one: never both.
\<close>

theorem failed_fetch_renders_not_found:
  "(error \<noteq> None \<or> data = None \<longrightarrow>
      fst (fetchEquipmentDetails arraySort data error s) = s\<lparr>loading := False\<rparr>) \<and>
   (equipment s = None \<and> (error \<noteq> None \<or> data = None) \<longrightarrow>
      equipment (fst (fetchEquipmentDetails arraySort data error s)) = None \<and>
      \<not> loading (fst (fetchEquipmentDetails arraySort data error s)) \<and>
      render user (fst (fetchEquipmentDetails arraySort data error s)) =
        NotFoundView ''Equipment Not Found'' ''/equipment'') \<and>
   (error = Some msg \<longrightarrow>
      snd (fetchEquipmentDetails arraySort data error s) =
        [ConsoleError ''Error fetching equipment:'' msg] \<and>
      equipment (fst (fetchEquipmentDetails arraySort data error s)) = equipment s) \<and>
   render user (fetchEquipmentDetails_begin s) = LoadingView \<and>
   ((\<exists>h l. render user s = NotFoundView h l) = (\<not> loading s \<and> equipment s = None)) \<and>
   ((\<exists>v. render user s = Detail v) = (\<not> loading s \<and> equipment s \<noteq> None)) \<and>
   \<not> ((\<exists>h l. render user s = NotFoundView h l) \<and> (\<exists>v. render user s = Detail v))"
proof (intro conjI impI)
  assume "error \<noteq> None \<or> data = None"
  then show "fst (fetchEquipmentDetails arraySort data error s) = s\<lparr>loading := False\<rparr>"
    by (auto simp add: fetchEquipmentDetails_def fetchEquipmentDetails_begin_def
        fetchEquipmentDetails_resume_def split: option.splits)
next
  assume a: "equipment s = None \<and> (error \<noteq> None \<or> data = None)"
  then have st: "fst (fetchEquipmentDetails arraySort data error s) = s\<lparr>loading := False\<rparr>"
    by (auto simp add: fetchEquipmentDetails_def fetchEquipmentDetails_begin_def
        fetchEquipmentDetails_resume_def split: option.splits)
  from a show "equipment (fst (fetchEquipmentDetails arraySort data error s)) = None"
    and "\<not> loading (fst (fetchEquipmentDetails arraySort data error s))"
    and "render user (fst (fetchEquipmentDetails arraySort data error s)) =
        NotFoundView ''Equipment Not Found'' ''/equipment''"
    unfolding st by (simp_all add: render_def)
next
  assume "error = Some msg"
  then show "snd (fetchEquipmentDetails arraySort data error s) =
      [ConsoleError ''Error fetching equipment:'' msg]"
    and "equipment (fst (fetchEquipmentDetails arraySort data error s)) = equipment s"
    by (simp_all add: fetchEquipmentDetails_def fetchEquipmentDetails_begin_def
        fetchEquipmentDetails_resume_def)
next
  show "render user (fetchEquipmentDetails_begin s) = LoadingView"
    by (simp add: render_def fetchEquipmentDetails_begin_def)
  show nf: "(\<exists>h l. render user s = NotFoundView h l) = (\<not> loading s \<and> equipment s = None)"
    by (auto simp add: render_def split: option.splits)
  show dv: "(\<exists>v. render user s = Detail v) = (\<not> loading s \<and> equipment s \<noteq> None)"
    by (auto simp add: render_def split: option.splits)
  from nf dv
  show "\<not> ((\<exists>h l. render user s = NotFoundView h l) \<and> (\<exists>v. render user s = Detail v))"
    by blast
qed

theorem failed_fetch_renders_not_found_witness:
  "fetchEquipmentDetails sampleSort None (Some ''network error'') initialState =
     (initialState\<lparr>loading := False\<rparr>,
      [ConsoleError ''Error fetching equipment:'' ''network error'']) \<and>
   render (Some sampleUser) (fst (fetchEquipmentDetails sampleSort None (Some ''network error'')
                                    initialState)) =
     NotFoundView ''Equipment Not Found'' ''/equipment'' \<and>
   render (Some sampleUser) (fst (fetchEquipmentDetails sampleSort None None initialState)) =
     NotFoundView ''Equipment Not Found'' ''/equipment''"
proof -
  note a = failed_fetch_renders_not_found [where arraySort = sampleSort and s = initialState
      and error = "Some ''network error''" and data = None and user = "Some sampleUser"
      and msg = "''network error''"]
  note b = failed_fetch_renders_not_found [where arraySort = sampleSort and s = initialState
      and error = None and data = None and user = "Some sampleUser"
      and msg = "''network error''"]
  have e: "equipment initialState = None"
    by (simp add: initialState_def)
  have p: "Some ''network error'' \<noteq> None \<or> (None :: EquipmentRow option) = None"
    and q: "(None :: string option) \<noteq> None \<or> (None :: EquipmentRow option) = None"
    by simp_all
  from a [THEN conjunct1, THEN mp, OF p]
  have 3: "fst (fetchEquipmentDetails sampleSort None (Some ''network error'') initialState) =
      initialState\<lparr>loading := False\<rparr>" .
  from a [THEN conjunct2, THEN conjunct1, THEN mp, OF conjI [OF e p]]
  have 1: "render (Some sampleUser)
      (fst (fetchEquipmentDetails sampleSort None (Some ''network error'') initialState)) =
      NotFoundView ''Equipment Not Found'' ''/equipment''"
    by (elim conjE)
  from a [THEN conjunct2, THEN conjunct2, THEN conjunct1, THEN mp, OF refl]
  have 2: "snd (fetchEquipmentDetails sampleSort None (Some ''network error'') initialState) =
      [ConsoleError ''Error fetching equipment:'' ''network error'']"
    by (elim conjE)
  from b [THEN conjunct2, THEN conjunct1, THEN mp, OF conjI [OF e q]]
  have 4: "render (Some sampleUser)
      (fst (fetchEquipmentDetails sampleSort None None initialState)) =
      NotFoundView ''Equipment Not Found'' ''/equipment''"
    by (elim conjE)
  from 2 3 have "fetchEquipmentDetails sampleSort None (Some ''network error'') initialState =
     (initialState\<lparr>loading := False\<rparr>,
      [ConsoleError ''Error fetching equipment:'' ''network error''])"
    by (intro prod_eqI) simp_all
  with 1 4 show ?thesis by (intro conjI)
qed

end
